theory Spec2Isabelle
  imports Complex_Main
begin

section \<open>Python values, schema nodes and errors\<close>

text \<open>
  A document is a tree of Python values. Strings are lists of 8-bit characters. A float is
  represented by the exact rational value of a finite double (infinities and NaN are outside
  the model). A dict is an association list in insertion order whose keys are strings.
\<close>

datatype datetime = DateTime (dt_year: nat) (dt_month: nat) (dt_day: nat)
  (dt_hour: nat) (dt_minute: nat) (dt_second: nat)

datatype pyval =
    VNone
  | VStr string
  | VInt int
  | VFloat rat
  | VDateTime datetime
  | VList "pyval list"
  | VDict "(string \<times> pyval) list"

text \<open>
  A schema node is a JSON object. Keys that the code reads with \<^verbatim>\<open>.get\<close> or tests with
  \<^verbatim>\<open>in\<close>, and keys that only some node types carry, are optional; reading an absent one with
  \<^verbatim>\<open>node[key]\<close> is a KeyError. \<open>n_length\<close> holds \<^verbatim>\<open>length.min\<close> and \<^verbatim>\<open>length.max\<close>.
  The lists \<open>n_elements\<close> and \<open>n_segments\<close> are empty where the key is absent.
\<close>

datatype rule = Rule (rule_name: string) (criteria: "nat list")

datatype node = Node
  (n_type: string)
  (n_id: string)
  (n_name: "string option")
  (n_req: "string option")
  (n_max_uses: "int option")
  (n_repeat: "int option")
  (n_data_type: "string option")
  (n_length: "(int \<times> int) option")
  (n_data_type_ids: "(string \<times> string) list option")
  (n_elements: "node list")
  (n_segments: "node list")
  (n_syntax: "rule list option")
  (n_replacement: "string option")

text \<open>
  Every \<^verbatim>\<open>raise\<close> site of the source is one constructor, carrying the values its message
  formats. The constructors named \<open>Py...\<close> are the exceptions raised by the Python runtime
  itself (a missing key, an index out of range, an unbound attribute or name, an unexpected
  keyword argument or a wrong operand type, a library ValueError).
\<close>

datatype error =
    NoTransactionSetHeader
  | UnsupportedTransactionSet pyval
  | MissingMandatorySegment string
  | UnknownSegmentReq string string
  | MissingLoop string "string list"
  | LoopTooLong string nat int
  | LoopMissingMandatorySegment string string
  | SegmentRepeatsTooOften string int nat
  | RepeatedSegmentNotList string
  | InSegment error string
  | SyntaxAtLeastOne string "nat list"
  | SyntaxAllOrNone string "nat list"
  | SyntaxIfAtLeastOne string nat "nat list"
  | UnknownElementType string string string
  | ElementMandatory string string
  | UnknownElementReq string string
  | ErrorConverting pyval string
  | NotEDI
  | MissingRequiredSegment string
  | MissingSegmentFormat string
  | EmptySegmentFormat string
  | FormatMissing
  | SegmentMismatch string string
  | TooManyElements string nat nat
  | UnknownElementTypeOfSegment string string string
  | MissingSegmentData string string string "string option"
  | UnsupportedEDIFormat string
  | PyValueError
  | PyOverflowError
  | PyKeyError string
  | PyIndexError
  | PyTypeError
  | PyAttributeError string
  | PyNameError string

text \<open>The exceptions that \<^verbatim>\<open>except ValueError\<close> catches.\<close>

fun is_ValueError :: "error \<Rightarrow> bool" where
  "is_ValueError (RepeatedSegmentNotList _) = False"
| "is_ValueError (PyKeyError _) = False"
| "is_ValueError PyIndexError = False"
| "is_ValueError PyOverflowError = False"
| "is_ValueError PyTypeError = False"
| "is_ValueError (PyAttributeError _) = False"
| "is_ValueError (PyNameError _) = False"
| "is_ValueError _ = True"

text \<open>
  Library functions of the Python runtime that the model takes as given: \<^verbatim>\<open>str()\<close> of a float,
  a datetime, a list or a dict; \<^verbatim>\<open>float(s)\<close> and \<^verbatim>\<open>int(s)\<close> of a string (\<open>None\<close> is their
  ValueError); \<^verbatim>\<open>datetime.strptime\<close>; and rounding a rational to the nearest double
  (\<open>None\<close> is an OverflowError).
\<close>

record pylib =
  str_of :: "pyval \<Rightarrow> string"
  float_of_str :: "string \<Rightarrow> rat option"
  int_of_str :: "string \<Rightarrow> int option"
  strptime :: "string \<Rightarrow> string \<Rightarrow> datetime option"
  to_double :: "rat \<Rightarrow> rat option"

subsection \<open>Python operations on values\<close>

function str_nat :: "nat \<Rightarrow> string" where
  "str_nat n =
     (if n < 10 then [''0123456789'' ! n]
      else str_nat (n div 10) @ [''0123456789'' ! (n mod 10)])"
  by pat_completeness auto
termination
  by (relation "measure id") auto

declare str_nat.simps [simp del]

definition str_int :: "int \<Rightarrow> string" where
  "str_int i = (if i < 0 then CHR ''-'' # str_nat (nat (- i)) else str_nat (nat i))"

text \<open>\<^verbatim>\<open>str(v)\<close>.\<close>

definition py_str :: "pylib \<Rightarrow> pyval \<Rightarrow> string" where
  "py_str rt v =
     (case v of
        VStr s \<Rightarrow> s
      | VInt i \<Rightarrow> str_int i
      | VNone \<Rightarrow> ''None''
      | _ \<Rightarrow> str_of rt v)"

text \<open>The items a \<^verbatim>\<open>for\<close> loop or \<^verbatim>\<open>zip\<close> draws from a value.\<close>

definition py_iter :: "pyval \<Rightarrow> error + pyval list" where
  "py_iter v =
     (case v of
        VList xs \<Rightarrow> Inr xs
      | VStr s \<Rightarrow> Inr (map (\<lambda>c. VStr [c]) s)
      | VDict d \<Rightarrow> Inr (map (\<lambda>kv. VStr (fst kv)) d)
      | _ \<Rightarrow> Inl PyTypeError)"

text \<open>\<^verbatim>\<open>v[0]\<close>. The keys of a dict are strings, so \<^verbatim>\<open>0\<close> is never one of them.\<close>

definition py_first :: "pyval \<Rightarrow> error + pyval" where
  "py_first v =
     (case v of
        VList xs \<Rightarrow> (case xs of [] \<Rightarrow> Inl PyIndexError | x # _ \<Rightarrow> Inr x)
      | VStr s \<Rightarrow> (case s of [] \<Rightarrow> Inl PyIndexError | c # _ \<Rightarrow> Inr (VStr [c]))
      | VDict d \<Rightarrow> Inl (PyKeyError ''0'')
      | _ \<Rightarrow> Inl PyTypeError)"

fun is_substring :: "string \<Rightarrow> string \<Rightarrow> bool" where
  "is_substring k [] = (k = [])"
| "is_substring k (c # cs) = (take (length k) (c # cs) = k \<or> is_substring k cs)"

text \<open>\<^verbatim>\<open>k in v\<close> for a string \<open>k\<close>.\<close>

definition py_contains :: "pyval \<Rightarrow> string \<Rightarrow> error + bool" where
  "py_contains v k =
     (case v of
        VDict d \<Rightarrow> Inr (k \<in> set (map fst d))
      | VList xs \<Rightarrow> Inr (VStr k \<in> set xs)
      | VStr s \<Rightarrow> Inr (is_substring k s)
      | _ \<Rightarrow> Inl PyTypeError)"

text \<open>\<^verbatim>\<open>v[k]\<close> for a string \<open>k\<close>.\<close>

definition py_getitem :: "pyval \<Rightarrow> string \<Rightarrow> error + pyval" where
  "py_getitem v k =
     (case v of
        VDict d \<Rightarrow> (case map_of d k of None \<Rightarrow> Inl (PyKeyError k) | Some x \<Rightarrow> Inr x)
      | _ \<Rightarrow> Inl PyTypeError)"

definition is_list :: "pyval \<Rightarrow> bool" where
  "is_list v = (case v of VList _ \<Rightarrow> True | _ \<Rightarrow> False)"

text \<open>\<^verbatim>\<open>d.join(xs)\<close>.\<close>

fun py_join :: "string \<Rightarrow> string list \<Rightarrow> string" where
  "py_join d [] = []"
| "py_join d [x] = x"
| "py_join d (x # y # ys) = x @ d @ py_join d (y # ys)"

text \<open>\<^verbatim>\<open>s[:m]\<close>: a negative \<open>m\<close> counts from the end.\<close>

definition py_slice_to :: "string \<Rightarrow> int \<Rightarrow> string" where
  "py_slice_to s m = (if 0 \<le> m then take (nat m) s else take (nat (int (length s) + m)) s)"

subsection \<open>Dates, times and numbers as text\<close>

definition pad_left :: "nat \<Rightarrow> string \<Rightarrow> string" where
  "pad_left w s = replicate (w - length s) CHR ''0'' @ s"

text \<open>
  \<^verbatim>\<open>e_data.strftime(...)\<close> for the three formats the encoder uses,
  \<^verbatim>\<open>%Y%m%d\<close>, \<^verbatim>\<open>%y%m%d\<close> and \<^verbatim>\<open>%H%M\<close>; \<open>None\<close> when the value has no such method.
  \<^verbatim>\<open>%Y\<close> is written with four digits, as the Python documentation gives it (a C library
  may leave a year below 1000 unpadded).
\<close>

definition strftime_Ymd :: "pyval \<Rightarrow> string option" where
  "strftime_Ymd v =
     (case v of
        VDateTime d \<Rightarrow>
          Some (pad_left 4 (str_nat (dt_year d)) @ pad_left 2 (str_nat (dt_month d))
                @ pad_left 2 (str_nat (dt_day d)))
      | _ \<Rightarrow> None)"

definition strftime_ymd :: "pyval \<Rightarrow> string option" where
  "strftime_ymd v =
     (case v of
        VDateTime d \<Rightarrow>
          Some (pad_left 2 (str_nat (dt_year d mod 100)) @ pad_left 2 (str_nat (dt_month d))
                @ pad_left 2 (str_nat (dt_day d)))
      | _ \<Rightarrow> None)"

definition strftime_HM :: "pyval \<Rightarrow> string option" where
  "strftime_HM v =
     (case v of
        VDateTime d \<Rightarrow> Some (pad_left 2 (str_nat (dt_hour d)) @ pad_left 2 (str_nat (dt_minute d)))
      | _ \<Rightarrow> None)"

text \<open>\<^verbatim>\<open>float(v)\<close>; \<open>None\<close> is a TypeError, ValueError or OverflowError.\<close>

definition py_float :: "pylib \<Rightarrow> pyval \<Rightarrow> rat option" where
  "py_float rt v =
     (case v of
        VInt i \<Rightarrow> (if \<bar>i\<bar> \<le> 2 ^ 53 then Some (of_int i) else to_double rt (of_int i))
      | VFloat q \<Rightarrow> Some q
      | VStr s \<Rightarrow> float_of_str rt s
      | _ \<Rightarrow> None)"

definition is_digit :: "char \<Rightarrow> bool" where
  "is_digit c = (c \<in> set ''0123456789'')"

definition digit_val :: "char \<Rightarrow> nat" where
  "digit_val c = of_char c - 48"

definition nat_of_digits :: "string \<Rightarrow> nat" where
  "nat_of_digits s = foldl (\<lambda>a c. 10 * a + digit_val c) 0 s"

text \<open>Rounding a non-negative rational to an integer, ties to even.\<close>

definition round_half_even :: "rat \<Rightarrow> int" where
  "round_half_even s =
     (let f = \<lfloor>s\<rfloor>; d = s - of_int f
      in if 1 / 2 < d \<or> (d = 1 / 2 \<and> odd f) then f + 1 else f)"

text \<open>
  \<^verbatim>\<open>format(q, "0<w>.<k>f")\<close>: the value rounded to \<open>k\<close> decimals in fixed-point notation,
  with a radix point exactly when \<open>k > 0\<close>, and zeros between the sign and the digits up to
  width \<open>w\<close>.
\<close>

definition fmt_fixed :: "rat \<Rightarrow> nat \<Rightarrow> nat \<Rightarrow> string" where
  "fmt_fixed q k w =
     (let ds = pad_left (k + 1) (str_nat (nat (round_half_even (\<bar>q\<bar> * 10 ^ k))));
          ip = take (length ds - k) ds;
          fp = drop (length ds - k) ds;
          body = ip @ (if k = 0 then [] else CHR ''.'' # fp);
          sgn = (if q < 0 then ''-'' else [])
      in sgn @ replicate (w - length sgn - length body) CHR ''0'' @ body)"

text \<open>
  \<^verbatim>\<open>"{:0{length}.{decimal}f}".format(q, length=mn, decimal=prec)\<close>: the format specification
  is the text \<^verbatim>\<open>0\<close>, \<open>mn\<close>, \<^verbatim>\<open>.\<close>, \<open>prec\<close>, \<^verbatim>\<open>f\<close>, which is a ValueError (\<open>None\<close>) unless
  \<open>mn\<close> is non-negative and \<open>prec\<close> is a non-empty run of digits within the limits of the
  runtime.
\<close>

definition format_fixed :: "rat \<Rightarrow> int \<Rightarrow> string \<Rightarrow> string option" where
  "format_fixed q mn prec =
     (if mn < 0 \<or> 2 ^ 63 \<le> mn \<or> prec = [] \<or> \<not> list_all is_digit prec
         \<or> 2 ^ 31 \<le> int (nat_of_digits prec)
      then None
      else Some (fmt_fixed q (nat_of_digits prec) (nat mn)))"


section \<open>The encoder (EDIGenerator)\<close>

text \<open>
  The generator object. \<^verbatim>\<open>__init__\<close> assigns the three delimiters below;
  \<^verbatim>\<open>component_element_delimiter\<close> and \<^verbatim>\<open>ts_id\<close> are attributes that \<^verbatim>\<open>__init__\<close> leaves
  unset (\<open>None\<close>), and reading an unset attribute is an AttributeError.
\<close>

record generator =
  g_element_delimiter :: string
  g_segment_delimiter :: string
  g_data_delimiter :: string
  g_component_element_delimiter :: "string option"
  g_ts_id :: "pyval option"

definition EDIGenerator_init :: generator where
  "EDIGenerator_init =
     \<lparr> g_element_delimiter = ''^'', g_segment_delimiter = [CHR 0x0A],
       g_data_delimiter = ''`'', g_component_element_delimiter = None, g_ts_id = None \<rparr>"

text \<open>
  The body of the \<^verbatim>\<open>try\<close> block of \<^verbatim>\<open>build_element\<close>: the formatted text and the generator
  (ISA16 records its first character as the data delimiter), or \<open>None\<close> when any exception
  is raised inside the block, which the bare \<^verbatim>\<open>except\<close> turns into one error.
\<close>

definition convert_element :: "pylib \<Rightarrow> generator \<Rightarrow> node \<Rightarrow> pyval \<Rightarrow> (string \<times> generator) option" where
  "convert_element rt g e_format e_data =
     (case n_data_type e_format of
        None \<Rightarrow> None
      | Some dt \<Rightarrow>
          if dt = ''AN'' then Some (py_str rt e_data, g)
          else if dt = ''DT'' then
            (case n_length e_format of
               None \<Rightarrow> None
             | Some (mn, mx) \<Rightarrow>
                 if mx = 8 then map_option (\<lambda>s. (s, g)) (strftime_Ymd e_data)
                 else if mx = 6 then map_option (\<lambda>s. (s, g)) (strftime_ymd e_data)
                 else None)
          else if dt = ''TM'' then
            (case n_length e_format of
               None \<Rightarrow> None
             | Some (mn, mx) \<Rightarrow>
                 if mx = 4 \<or> mx = 6 \<or> mx = 7 \<or> mx = 8
                 then map_option (\<lambda>s. (s, g)) (strftime_HM e_data)
                 else None)
          else if dt = ''R'' then
            (case py_float rt e_data of
               None \<Rightarrow> None
             | Some q \<Rightarrow> Some (str_of rt (VFloat q), g))
          else if take 1 dt = ''N'' then
            (case py_float rt e_data of
               None \<Rightarrow> None
             | Some q \<Rightarrow>
                 (case n_length e_format of
                    None \<Rightarrow> None
                  | Some (mn, mx) \<Rightarrow> map_option (\<lambda>s. (s, g)) (format_fixed q mn (drop 1 dt))))
          else if dt = ''ID'' then
            (case n_data_type_ids e_format of
               None \<Rightarrow> None
             | Some ids \<Rightarrow>
                 if ids = [] then Some (py_str rt e_data, g)
                 else (case e_data of
                         VList _ \<Rightarrow> None
                       | VDict _ \<Rightarrow> None
                       | _ \<Rightarrow> Some (py_str rt e_data, g)))
          else if dt = [] then
            (if n_id e_format = ''ISA16'' then
               (case py_str rt e_data of
                  [] \<Rightarrow> None
                | c # _ \<Rightarrow> Some (py_str rt e_data, g\<lparr>g_data_delimiter := [c]\<rparr>))
             else None)
          else Some ([], g))"

definition build_element :: "pylib \<Rightarrow> generator \<Rightarrow> node \<Rightarrow> pyval \<Rightarrow> error + (string \<times> generator)" where
  "build_element rt g e_format e_data =
     (if e_data = VNone then
        (case n_req e_format of
           None \<Rightarrow> Inl (PyKeyError ''req'')
         | Some r \<Rightarrow>
             if r = ''M'' then
               (case n_name e_format of
                  None \<Rightarrow> Inl (PyKeyError ''name'')
                | Some nm \<Rightarrow> Inl (ElementMandatory (n_id e_format) nm))
             else if r = ''O'' \<or> r = ''C'' then Inr ([], g)
             else
               (case g_ts_id g of
                  None \<Rightarrow> Inl (PyAttributeError ''ts_id'')
                | Some _ \<Rightarrow> Inl (UnknownElementReq r (n_id e_format))))
      else
        (case convert_element rt g e_format e_data of
           None \<Rightarrow>
             (case n_data_type e_format of
                None \<Rightarrow> Inl (PyKeyError ''data_type'')
              | Some dt \<Rightarrow> Inl (ErrorConverting e_data dt))
         | Some (formatted_element, g') \<Rightarrow>
             (case n_length e_format of
                None \<Rightarrow> Inl (PyKeyError ''length'')
              | Some (mn, mx) \<Rightarrow>
                  Inr (py_slice_to
                         (formatted_element
                            @ replicate (nat (mn - int (length formatted_element))) CHR '' '')
                         mx, g'))))"

text \<open>The list comprehension over the sub-elements of a composite.\<close>

fun build_elements :: "pylib \<Rightarrow> generator \<Rightarrow> (pyval \<times> node) list \<Rightarrow> error + (string list \<times> generator)" where
  "build_elements rt g [] = Inr ([], g)"
| "build_elements rt g ((ce_data, ce_format) # rest) =
     (case build_element rt g ce_format ce_data of
        Inl e \<Rightarrow> Inl e
      | Inr (s, g1) \<Rightarrow>
          (case build_elements rt g1 rest of
             Inl e \<Rightarrow> Inl e
           | Inr (ss, g2) \<Rightarrow> Inr (s # ss, g2)))"

definition build_element_list :: "pylib \<Rightarrow> generator \<Rightarrow> node \<Rightarrow> pyval \<Rightarrow> error + (string \<times> generator)" where
  "build_element_list rt g e_format e_data =
     (if n_type e_format = ''element'' then build_element rt g e_format e_data
      else if n_type e_format = ''composite'' then
        (case py_getitem e_data (n_id e_format) of
           Inl e \<Rightarrow> Inl e
         | Inr sub \<Rightarrow>
             (case py_iter sub of
                Inl e \<Rightarrow> Inl e
              | Inr items \<Rightarrow>
                  (case build_elements rt g (zip items (n_elements e_format)) of
                     Inl e \<Rightarrow> Inl e
                   | Inr (formatted_elements, g') \<Rightarrow>
                       (case g_component_element_delimiter g' of
                          None \<Rightarrow> Inl (PyAttributeError ''component_element_delimiter'')
                        | Some d \<Rightarrow> Inr (py_join d formatted_elements, g')))))
      else
        (case n_name e_format of
           None \<Rightarrow> Inl (PyKeyError ''name'')
         | Some nm \<Rightarrow> Inl (UnknownElementType (n_id e_format) nm (n_type e_format))))"

text \<open>The \<^verbatim>\<open>for\<close> loop of \<^verbatim>\<open>build_segment\<close> over the zipped data and element formats.\<close>

fun build_element_lists :: "pylib \<Rightarrow> generator \<Rightarrow> (pyval \<times> node) list \<Rightarrow> error + (string list \<times> generator)" where
  "build_element_lists rt g [] = Inr ([], g)"
| "build_element_lists rt g ((e_data, e_format) # rest) =
     (case build_element_list rt g e_format e_data of
        Inl e \<Rightarrow> Inl e
      | Inr (s, g1) \<Rightarrow>
          (case build_element_lists rt g1 rest of
             Inl e \<Rightarrow> Inl e
           | Inr (ss, g2) \<Rightarrow> Inr (s # ss, g2)))"

text \<open>
  The scans of the syntax rules over \<open>output_elements\<close>: each stops (\<^verbatim>\<open>break\<close>) at the first
  index that is out of range.
\<close>

fun any_found :: "string list \<Rightarrow> nat list \<Rightarrow> bool" where
  "any_found out [] = False"
| "any_found out (idx # rest) =
     (if length out \<le> idx then False
      else if out ! idx \<noteq> [] then True
      else any_found out rest)"

fun count_found :: "string list \<Rightarrow> nat list \<Rightarrow> nat" where
  "count_found out [] = 0"
| "count_found out (idx # rest) =
     (if length out \<le> idx then 0
      else (if out ! idx \<noteq> [] then 1 else 0) + count_found out rest)"

definition check_rule :: "string \<Rightarrow> string list \<Rightarrow> rule \<Rightarrow> error option" where
  "check_rule seg_id out r =
     (if rule_name r = ''ATLEASTONE'' then
        (if any_found out (criteria r) then None
         else Some (SyntaxAtLeastOne seg_id (criteria r)))
      else if rule_name r = ''ALLORNONE'' then
        (if 0 < count_found out (criteria r) \<and> count_found out (criteria r) < length (criteria r)
         then Some (SyntaxAllOrNone seg_id (criteria r))
         else None)
      else if rule_name r = ''IFATLEASTONE'' then
        (case criteria r of
           [] \<Rightarrow> Some PyIndexError
         | c0 # others \<Rightarrow>
             if c0 < length out \<and> out ! c0 \<noteq> [] then
               (if count_found out others = 0
                then Some (SyntaxIfAtLeastOne seg_id c0 (criteria r))
                else None)
             else None)
      else None)"

fun check_rules :: "string \<Rightarrow> string list \<Rightarrow> rule list \<Rightarrow> error option" where
  "check_rules seg_id out [] = None"
| "check_rules seg_id out (r # rs) =
     (case check_rule seg_id out r of
        Some e \<Rightarrow> Some e
      | None \<Rightarrow> check_rules seg_id out rs)"

text \<open>The \<^verbatim>\<open>while\<close> loop that removes trailing empty elements.\<close>

definition trim_trailing_empty :: "string list \<Rightarrow> string list" where
  "trim_trailing_empty out = rev (dropWhile (\<lambda>s. s = []) (rev out))"

definition build_segment :: "pylib \<Rightarrow> generator \<Rightarrow> node \<Rightarrow> pyval \<Rightarrow> error + (string \<times> generator)" where
  "build_segment rt g segment segment_data =
     (case py_iter segment_data of
        Inl e \<Rightarrow> Inl e
      | Inr items \<Rightarrow>
          (case build_element_lists rt g (zip items (n_elements segment)) of
             Inl e \<Rightarrow> (if is_ValueError e then Inl (InSegment e (n_id segment)) else Inl e)
           | Inr (outs, g') \<Rightarrow>
               (let output_elements = n_id segment # outs in
                case check_rules (n_id segment) output_elements
                       (case n_syntax segment of None \<Rightarrow> [] | Some rs \<Rightarrow> rs) of
                  Some e \<Rightarrow> Inl e
                | None \<Rightarrow>
                    Inr (py_join (g_element_delimiter g') (trim_trailing_empty output_elements),
                         g'))))"

text \<open>The loop of \<^verbatim>\<open>build_segment_list\<close> over the occurrences of a repeated segment.\<close>

fun build_segment_entries :: "pylib \<Rightarrow> generator \<Rightarrow> node \<Rightarrow> pyval list \<Rightarrow> error + (string list \<times> generator)" where
  "build_segment_entries rt g segment [] = Inr ([], g)"
| "build_segment_entries rt g segment (segment_entry # rest) =
     (if is_list segment_entry then
        (case build_segment rt g segment segment_entry of
           Inl e \<Rightarrow> Inl e
         | Inr (s, g1) \<Rightarrow>
             (case build_segment_entries rt g1 segment rest of
                Inl e \<Rightarrow> Inl e
              | Inr (ss, g2) \<Rightarrow> Inr (s # ss, g2)))
      else Inl (RepeatedSegmentNotList (n_id segment)))"

definition build_segment_list :: "pylib \<Rightarrow> generator \<Rightarrow> node \<Rightarrow> pyval \<Rightarrow> error + (string list \<times> generator)" where
  "build_segment_list rt g segment segment_data =
     (case py_first segment_data of
        Inl e \<Rightarrow> Inl e
      | Inr first \<Rightarrow>
          if \<not> is_list first then
            (case build_segment rt g segment segment_data of
               Inl e \<Rightarrow> Inl e
             | Inr (s, g') \<Rightarrow> Inr ([s], g'))
          else
            (case py_iter segment_data of
               Inl e \<Rightarrow> Inl e
             | Inr entries \<Rightarrow>
                 (let num_uses = length entries;
                      max_uses = (case n_max_uses segment of None \<Rightarrow> - 1 | Some m \<Rightarrow> m)
                  in if - 1 < max_uses \<and> max_uses < int num_uses
                     then Inl (SegmentRepeatsTooOften (n_id segment) max_uses num_uses)
                     else build_segment_entries rt g segment entries)))"



text \<open>
  \<^verbatim>\<open>build_loop_list\<close> with its two nested \<^verbatim>\<open>for\<close> loops: over the iterations of the loop's
  data and, for each iteration, over the child nodes of the loop. The test for a missing
  child reads \<^verbatim>\<open>section["req"]\<close>, the loop's own \<open>req\<close>, before the child's. The calls of
  \<^verbatim>\<open>Debug.explain\<close> only print and are left out.
\<close>

lemma size_n_segments: "size_list size (n_segments s) < size s"
  by (cases s) simp

function build_loop_list :: "pylib \<Rightarrow> generator \<Rightarrow> node \<Rightarrow> pyval \<Rightarrow> error + (string list \<times> generator)"
  and build_loop_iterations :: "pylib \<Rightarrow> generator \<Rightarrow> node \<Rightarrow> pyval list \<Rightarrow> error + (string list \<times> generator)"
  and build_loop_segments :: "pylib \<Rightarrow> generator \<Rightarrow> node \<Rightarrow> node list \<Rightarrow> pyval \<Rightarrow> error + (string list \<times> generator)"
where
  "build_loop_list rt g section data =
     (case py_contains data (n_id section) of
        Inl e \<Rightarrow> Inl e
      | Inr False \<Rightarrow>
          (if list_ex (\<lambda>segment. n_req segment = None) (n_segments section)
           then Inl (PyKeyError ''req'')
           else
             (let mandatory = filter (\<lambda>segment. n_req segment = Some ''M'') (n_segments section)
              in if 0 < length mandatory
                 then Inl (MissingLoop (n_id section) (map n_id mandatory))
                 else Inr ([], g)))
      | Inr True \<Rightarrow>
          (case n_repeat section of
             None \<Rightarrow> Inl (PyKeyError ''repeat'')
           | Some rep \<Rightarrow>
               if rep < int (length (n_segments section))
               then Inl (LoopTooLong (n_id section) (length (n_segments section)) rep)
               else
                 (case py_getitem data (n_id section) of
                    Inl e \<Rightarrow> Inl e
                  | Inr loop_data \<Rightarrow>
                      (case py_iter loop_data of
                         Inl e \<Rightarrow> Inl e
                       | Inr iterations \<Rightarrow> build_loop_iterations rt g section iterations))))"
| "build_loop_iterations rt g section [] = Inr ([], g)"
| "build_loop_iterations rt g section (iteration # rest) =
     (case build_loop_segments rt g section (n_segments section) iteration of
        Inl e \<Rightarrow> Inl e
      | Inr (out1, g1) \<Rightarrow>
          (case build_loop_iterations rt g1 section rest of
             Inl e \<Rightarrow> Inl e
           | Inr (out2, g2) \<Rightarrow> Inr (out1 @ out2, g2)))"
| "build_loop_segments rt g section [] iteration = Inr ([], g)"
| "build_loop_segments rt g section (segment # rest) iteration =
     (case py_contains iteration (n_id segment) of
        Inl e \<Rightarrow> Inl e
      | Inr present \<Rightarrow>
          if \<not> present then
            (case n_req section of
               None \<Rightarrow> Inl (PyKeyError ''req'')
             | Some section_req \<Rightarrow>
                 if section_req = ''O'' \<or> section_req = ''C''
                 then build_loop_segments rt g section rest iteration
                 else
                   (case n_req segment of
                      None \<Rightarrow> Inl (PyKeyError ''req'')
                    | Some segment_req \<Rightarrow>
                        if segment_req = ''M''
                        then Inl (LoopMissingMandatorySegment (n_id section) (n_id segment))
                        else
                          (case g_ts_id g of
                             None \<Rightarrow> Inl (PyAttributeError ''ts_id'')
                           | Some _ \<Rightarrow> Inl (UnknownSegmentReq segment_req (n_id segment)))))
          else
            (case (if n_type segment = ''loop''
                   then build_loop_list rt g segment iteration
                   else (case py_getitem iteration (n_id segment) of
                           Inl e \<Rightarrow> Inl e
                         | Inr segment_data \<Rightarrow> build_segment_list rt g segment segment_data)) of
               Inl e \<Rightarrow> Inl e
             | Inr (out1, g1) \<Rightarrow>
                 (case build_loop_segments rt g1 section rest iteration of
                    Inl e \<Rightarrow> Inl e
                  | Inr (out2, g2) \<Rightarrow> Inr (out1 @ out2, g2))))"
  by pat_completeness auto
termination
  apply (relation "measures
     [\<lambda>x. case x of
             Inl (rt, g, s, d) \<Rightarrow> 2 * size s + 1
           | Inr (Inl (rt, g, s, its)) \<Rightarrow> 2 * size s
           | Inr (Inr (rt, g, s, segs, it)) \<Rightarrow> 2 * size_list size segs,
      \<lambda>x. case x of
             Inl (rt, g, s, d) \<Rightarrow> 0
           | Inr (Inl (rt, g, s, its)) \<Rightarrow> length its
           | Inr (Inr (rt, g, s, segs, it)) \<Rightarrow> 0]")
  using size_n_segments
       apply auto
  done

text \<open>The \<^verbatim>\<open>for\<close> loop of \<^verbatim>\<open>build\<close> over the nodes of the transaction set.\<close>

fun build_sections :: "pylib \<Rightarrow> generator \<Rightarrow> node list \<Rightarrow> pyval \<Rightarrow> error + (string list \<times> generator)" where
  "build_sections rt g [] data = Inr ([], g)"
| "build_sections rt g (section # rest) data =
     (if n_type section = ''segment'' then
        (case py_contains data (n_id section) of
           Inl e \<Rightarrow> Inl e
         | Inr present \<Rightarrow>
             if \<not> present then
               (case n_req section of
                  None \<Rightarrow> Inl (PyKeyError ''req'')
                | Some r \<Rightarrow>
                    if r = ''O'' \<or> r = ''C'' then build_sections rt g rest data
                    else if r = ''M'' then Inl (MissingMandatorySegment (n_id section))
                    else
                      (case g_ts_id g of
                         None \<Rightarrow> Inl (PyAttributeError ''ts_id'')
                       | Some _ \<Rightarrow> Inl (UnknownSegmentReq r (n_id section))))
             else
               (case py_getitem data (n_id section) of
                  Inl e \<Rightarrow> Inl e
                | Inr segment_data \<Rightarrow>
                    (case build_segment_list rt g section segment_data of
                       Inl e \<Rightarrow> Inl e
                     | Inr (out1, g1) \<Rightarrow>
                         (case build_sections rt g1 rest data of
                            Inl e \<Rightarrow> Inl e
                          | Inr (out2, g2) \<Rightarrow> Inr (out1 @ out2, g2)))))
      else if n_type section = ''loop'' then
        (case build_loop_list rt g section data of
           Inl e \<Rightarrow> Inl e
         | Inr (out1, g1) \<Rightarrow>
             (case build_sections rt g1 rest data of
                Inl e \<Rightarrow> Inl e
              | Inr (out2, g2) \<Rightarrow> Inr (out1 @ out2, g2)))
      else build_sections rt g rest data)"

text \<open>
  \<^verbatim>\<open>build\<close>. The registry \<^verbatim>\<open>supported_formats\<close> is loaded from JSON files that are not part
  of the sources; it is a parameter, a dict from format names to lists of nodes.
\<close>

definition build :: "(string \<times> node list) list \<Rightarrow> pylib \<Rightarrow> generator \<Rightarrow> pyval \<Rightarrow> error + (string \<times> generator)" where
  "build supported_formats rt g data =
     (case py_contains data ''ST'' of
        Inl e \<Rightarrow> Inl e
      | Inr present \<Rightarrow>
          if \<not> present then
            (case map_of supported_formats ''ST'' of
               None \<Rightarrow> Inl (PyKeyError ''ST'')
             | Some _ \<Rightarrow> Inl NoTransactionSetHeader)
          else
            (case py_getitem data ''ST'' of
               Inl e \<Rightarrow> Inl e
             | Inr st \<Rightarrow>
                 (case py_first st of
                    Inl e \<Rightarrow> Inl e
                  | Inr ts_id \<Rightarrow>
                      (case ts_id of
                         VList _ \<Rightarrow> Inl PyTypeError
                       | VDict _ \<Rightarrow> Inl PyTypeError
                       | VStr name \<Rightarrow>
                           (case map_of supported_formats name of
                              None \<Rightarrow> Inl (UnsupportedTransactionSet ts_id)
                            | Some edi_format \<Rightarrow>
                                (case build_sections rt (g\<lparr>g_ts_id := Some ts_id\<rparr>) edi_format data of
                                   Inl e \<Rightarrow> Inl e
                                 | Inr (output_segments, g') \<Rightarrow>
                                     Inr (py_join (g_segment_delimiter g') output_segments
                                            @ g_segment_delimiter g', g')))
                       | _ \<Rightarrow> Inl (UnsupportedTransactionSet ts_id)))))"

subsection \<open>Example schemas and documents\<close>

definition element_node :: "string \<Rightarrow> string \<Rightarrow> string \<Rightarrow> int \<Rightarrow> int \<Rightarrow> node" where
  "element_node i r dt mn mx =
     Node ''element'' i (Some i) (Some r) None None (Some dt) (Some (mn, mx)) None [] [] None None"

definition segment_node :: "string \<Rightarrow> string \<Rightarrow> int \<Rightarrow> node list \<Rightarrow> node" where
  "segment_node i r mu els =
     Node ''segment'' i (Some i) (Some r) (Some mu) None None None None els [] None None"

definition loop_node :: "string \<Rightarrow> string \<Rightarrow> int \<Rightarrow> node list \<Rightarrow> node" where
  "loop_node i r rep segs =
     Node ''loop'' i (Some i) (Some r) None (Some rep) None None None [] segs None None"

definition st_node :: node where
  "st_node = segment_node ''ST'' ''M'' 1
     [element_node ''ST01'' ''M'' ''AN'' 3 3, element_node ''ST02'' ''M'' ''AN'' 4 9]"

definition n1_node :: "string \<Rightarrow> node" where
  "n1_node r = segment_node ''N1'' r 1 [element_node ''N101'' ''M'' ''AN'' 1 3]"

definition n2_node :: "string \<Rightarrow> node" where
  "n2_node r = segment_node ''N2'' r 1 [element_node ''N201'' ''M'' ''AN'' 1 3]"

definition st_data :: "string \<times> pyval" where
  "st_data = (''ST'', VList [VStr ''810'', VStr ''0001''])"

definition n1_iteration :: "string \<Rightarrow> pyval" where
  "n1_iteration x = VDict [(''N1'', VList [VStr x])]"

section \<open>The delimiter model (utils.Delimiters)\<close>

text \<open>
  \<^verbatim>\<open>Delimiters.format\<close> removes every occurrence of each of the four delimiters in turn
  (\<^verbatim>\<open>str.replace(each, '')\<close>) and then replaces every run of two or more whitespace
  characters by one space (\<^verbatim>\<open>re.sub(r'\s{2,}', ' ', ...)\<close>). A character is a code point
  below 256; \<open>is_space\<close> lists the ones that \<^verbatim>\<open>\s\<close> matches.
\<close>

record delimiters =
  d_segment_delimiter :: string
  d_element_delimiter :: string
  d_repetition_delimiter :: string
  d_component_element_delimiter :: string

definition Delimiters_init :: delimiters where
  "Delimiters_init =
     \<lparr> d_segment_delimiter = [CHR 0x0A], d_element_delimiter = ''*'',
       d_repetition_delimiter = ''^'', d_component_element_delimiter = '':'' \<rparr>"

definition delimiter_list :: "delimiters \<Rightarrow> string list" where
  "delimiter_list d =
     [d_segment_delimiter d, d_element_delimiter d, d_repetition_delimiter d,
      d_component_element_delimiter d]"

function remove_all :: "string \<Rightarrow> string \<Rightarrow> string" where
  "remove_all pat s =
     (if pat = [] then s
      else (case s of
              [] \<Rightarrow> []
            | c # cs \<Rightarrow>
                if take (length pat) s = pat then remove_all pat (drop (length pat) s)
                else c # remove_all pat cs))"
  by pat_completeness auto
termination
  by (relation "measure (\<lambda>(pat, s). length s)") auto

declare remove_all.simps [simp del]

definition is_space :: "char \<Rightarrow> bool" where
  "is_space c =
     (c \<in> set [CHR 0x09, CHR 0x0A, CHR 0x0B, CHR 0x0C, CHR 0x0D, CHR 0x1C, CHR 0x1D, CHR 0x1E,
               CHR 0x1F, CHR 0x20, CHR 0x85, CHR 0xA0])"

function collapse_ws :: "string \<Rightarrow> string" where
  "collapse_ws [] = []"
| "collapse_ws (c # cs) =
     (if is_space c then
        (if takeWhile is_space cs = [] then c # collapse_ws cs
         else CHR '' '' # collapse_ws (dropWhile is_space cs))
      else c # collapse_ws cs)"
  by pat_completeness auto
termination
  by (relation "measure length") (auto simp: length_dropWhile_le less_Suc_eq_le)

definition format :: "delimiters \<Rightarrow> string \<Rightarrow> string" where
  "format d v = collapse_ws (foldl (\<lambda>formatted_value each. remove_all each formatted_value) v (delimiter_list d))"

text \<open>
  A runtime whose library functions always fail. The examples that use it never call them.
\<close>

definition no_lib :: pylib where
  "no_lib = \<lparr> str_of = (\<lambda>_. []), float_of_str = (\<lambda>_. None), int_of_str = (\<lambda>_. None),
              strptime = (\<lambda>_ _. None), to_double = (\<lambda>_. None) \<rparr>"

section \<open>The validator (EDIValidator)\<close>

text \<open>
  A \<^verbatim>\<open>ValidationError\<close> holds the four arguments of \<^verbatim>\<open>add_error\<close>; the kind stands for the
  message and the values it formats. \<open>TypeOf v\<close> is the Python type of \<open>v\<close>, which two calls
  pass as \<^verbatim>\<open>data_type\<close>. \<^verbatim>\<open>add_error\<close> has the parameters \<^verbatim>\<open>data_type\<close>, \<^verbatim>\<open>name\<close>, \<^verbatim>\<open>segment\<close> and
  \<^verbatim>\<open>error\<close>; the two calls that pass the keyword \<^verbatim>\<open>type\<close> (in \<^verbatim>\<open>validate_children\<close> for an empty
  schema list and in \<^verbatim>\<open>validate_loop\<close>) are a TypeError of the runtime. The validator
  functions take the list of errors accumulated so far and return it extended.
\<close>

datatype vdata_type = TypeName string | TypeOf pyval

datatype vkind =
    RequiredSegmentNotFound
  | UnknownType string
  | UnexpectedType string
  | UnexpectedChild "string list"
  | ChildrenNotDictOrList
  | MissingRequired string
  | SegmentRepeats nat int
  | MoreElementsThanDefinition nat nat
  | AtLeastOneRequired "string list"
  | AllRequired "string list"
  | IfPresentAtLeastOne string "string list"
  | ElementIsMandatory
  | UnknownReqValue string
  | InvalidDateLength int
  | InvalidDateType
  | InvalidTimeLength int
  | InvalidTimeType
  | InvalidDecimalType
  | InvalidNumberType
  | InvalidIdValue pyval "string list"
  | LengthGreaterThanMax nat int
  | LengthOutsideRange nat int int

datatype validation_error = ValidationError
  (ve_data_type: vdata_type) (ve_name: string) (ve_segment: "string option") (ve_error: vkind)

definition REQUIRED_SEGMENTS :: "string list" where
  "REQUIRED_SEGMENTS = [''ISA'', ''ST'', ''SE'', ''IEA'']"

definition element_name :: "string \<Rightarrow> nat \<Rightarrow> string" where
  "element_name seg_id idx = seg_id @ pad_left 2 (str_nat idx)"

definition py_truthy :: "pyval \<Rightarrow> bool" where
  "py_truthy v =
     (case v of
        VNone \<Rightarrow> False
      | VStr s \<Rightarrow> s \<noteq> []
      | VInt i \<Rightarrow> i \<noteq> 0
      | VFloat q \<Rightarrow> q \<noteq> 0
      | VDateTime _ \<Rightarrow> True
      | VList xs \<Rightarrow> xs \<noteq> []
      | VDict d \<Rightarrow> d \<noteq> [])"

definition py_len :: "pyval \<Rightarrow> error + nat" where
  "py_len v =
     (case v of
        VDict d \<Rightarrow> Inr (length d)
      | VList xs \<Rightarrow> Inr (length xs)
      | VStr s \<Rightarrow> Inr (length s)
      | _ \<Rightarrow> Inl PyTypeError)"

definition py_get :: "pyval \<Rightarrow> string \<Rightarrow> error + pyval" where
  "py_get v k =
     (case v of
        VDict d \<Rightarrow> Inr (case map_of d k of None \<Rightarrow> VNone | Some x \<Rightarrow> x)
      | _ \<Rightarrow> Inl (PyAttributeError ''get''))"

definition is_dict :: "pyval \<Rightarrow> bool" where
  "is_dict v = (case v of VDict _ \<Rightarrow> True | _ \<Rightarrow> False)"

definition find_schema :: "string \<Rightarrow> node list \<Rightarrow> node option" where
  "find_schema name schemas = find (\<lambda>schema. n_id schema = name) schemas"

definition get_child_schemas :: "node \<Rightarrow> node list" where
  "get_child_schemas schema = (if n_type schema = ''loop'' then n_segments schema else n_elements schema)"

fun validate_required :: "(string \<times> pyval) list \<Rightarrow> node list \<Rightarrow> validation_error list \<Rightarrow> error + validation_error list" where
  "validate_required children [] errs = Inr errs"
| "validate_required children (schema # rest) errs =
     (if n_type schema = ''segment'' \<or> n_type schema = ''loop'' then
        (case n_req schema of
           None \<Rightarrow> Inl (PyKeyError ''req'')
         | Some r \<Rightarrow>
             if r = ''M'' \<and> n_id schema \<notin> set (map fst children)
             then validate_required children rest
                    (errs @ [ValidationError (TypeName (n_type schema)) (n_id schema) None
                               (MissingRequired (n_type schema))])
             else validate_required children rest errs)
      else validate_required children rest errs)"

definition validate_loop :: "string \<Rightarrow> pyval \<Rightarrow> node \<Rightarrow> validation_error list \<Rightarrow> error + validation_error list" where
  "validate_loop loop_id loop_data loop_schema errs =
     (case py_len loop_data of
        Inl e \<Rightarrow> Inl e
      | Inr loop_count \<Rightarrow>
          (let max_repeat = (case n_repeat loop_schema of None \<Rightarrow> - 1 | Some m \<Rightarrow> m)
           in if - 1 < max_repeat \<and> max_repeat < int loop_count
              then Inl PyTypeError
              else Inr errs))"

fun any_present :: "string \<Rightarrow> pyval \<Rightarrow> nat list \<Rightarrow> error + bool" where
  "any_present seg_id seg_data [] = Inr False"
| "any_present seg_id seg_data (idx # rest) =
     (case py_get seg_data (element_name seg_id idx) of
        Inl e \<Rightarrow> Inl e
      | Inr v \<Rightarrow> if py_truthy v then Inr True else any_present seg_id seg_data rest)"

fun count_present :: "string \<Rightarrow> pyval \<Rightarrow> nat list \<Rightarrow> error + nat" where
  "count_present seg_id seg_data [] = Inr 0"
| "count_present seg_id seg_data (idx # rest) =
     (case py_get seg_data (element_name seg_id idx) of
        Inl e \<Rightarrow> Inl e
      | Inr v \<Rightarrow>
          (case count_present seg_id seg_data rest of
             Inl e \<Rightarrow> Inl e
           | Inr n \<Rightarrow> Inr ((if py_truthy v then 1 else 0) + n)))"

definition required_elements :: "string \<Rightarrow> rule \<Rightarrow> string list" where
  "required_elements seg_id r = map (element_name seg_id) (criteria r)"

definition validate_rule :: "string \<Rightarrow> pyval \<Rightarrow> rule \<Rightarrow> validation_error list \<Rightarrow> error + validation_error list" where
  "validate_rule seg_id seg_data r errs =
     (if rule_name r = ''ATLEASTONE'' then
        (case any_present seg_id seg_data (criteria r) of
           Inl e \<Rightarrow> Inl e
         | Inr found \<Rightarrow>
             if found then Inr errs
             else Inr (errs @ [ValidationError (TypeName ''segment'') seg_id (Some seg_id)
                                 (AtLeastOneRequired (required_elements seg_id r))]))
      else if rule_name r = ''ALLORNONE'' then
        (case count_present seg_id seg_data (criteria r) of
           Inl e \<Rightarrow> Inl e
         | Inr found \<Rightarrow>
             if 0 < found \<and> found < length (criteria r)
             then Inr (errs @ [ValidationError (TypeName ''segment'') seg_id (Some seg_id)
                                 (AllRequired (required_elements seg_id r))])
             else Inr errs)
      else if rule_name r = ''IFATLEASTONE'' then
        (case criteria r of
           [] \<Rightarrow> Inl PyIndexError
         | c0 # others \<Rightarrow>
             (case py_get seg_data (element_name seg_id c0) of
                Inl e \<Rightarrow> Inl e
              | Inr v \<Rightarrow>
                  if py_truthy v then
                    (case count_present seg_id seg_data others of
                       Inl e \<Rightarrow> Inl e
                     | Inr found \<Rightarrow>
                         if found = 0
                         then Inr (errs @ [ValidationError (TypeName ''segment'') seg_id
                                             (Some seg_id)
                                             (IfPresentAtLeastOne (element_name seg_id c0)
                                                (required_elements seg_id r))])
                         else Inr errs)
                  else Inr errs))
      else Inr errs)"

fun validate_rules :: "string \<Rightarrow> pyval \<Rightarrow> rule list \<Rightarrow> validation_error list \<Rightarrow> error + validation_error list" where
  "validate_rules seg_id seg_data [] errs = Inr errs"
| "validate_rules seg_id seg_data (r # rs) errs =
     (case validate_rule seg_id seg_data r errs of
        Inl e \<Rightarrow> Inl e
      | Inr errs1 \<Rightarrow> validate_rules seg_id seg_data rs errs1)"

definition validate_single_segment :: "string \<Rightarrow> pyval \<Rightarrow> node \<Rightarrow> validation_error list \<Rightarrow> error + validation_error list" where
  "validate_single_segment seg_id seg_data seg_schema errs =
     (case py_len seg_data of
        Inl e \<Rightarrow> Inl e
      | Inr num_elements \<Rightarrow>
          (let num_schema_elements = length (n_elements seg_schema);
               errs1 = (if num_schema_elements < num_elements
                        then errs @ [ValidationError (TypeName ''segment'') seg_id (Some seg_id)
                                       (MoreElementsThanDefinition num_schema_elements num_elements)]
                        else errs)
           in case n_syntax seg_schema of
                None \<Rightarrow> Inr errs1
              | Some rules \<Rightarrow> validate_rules seg_id seg_data rules errs1))"

fun validate_single_segments :: "string \<Rightarrow> pyval list \<Rightarrow> node \<Rightarrow> validation_error list \<Rightarrow> error + validation_error list" where
  "validate_single_segments seg_id [] seg_schema errs = Inr errs"
| "validate_single_segments seg_id (segment # rest) seg_schema errs =
     (case validate_single_segment seg_id segment seg_schema errs of
        Inl e \<Rightarrow> Inl e
      | Inr errs1 \<Rightarrow> validate_single_segments seg_id rest seg_schema errs1)"

definition validate_segment :: "string \<Rightarrow> pyval \<Rightarrow> node \<Rightarrow> validation_error list \<Rightarrow> error + validation_error list" where
  "validate_segment seg_id seg_data seg_schema errs =
     (case seg_data of
        VList segs \<Rightarrow>
          (let num_uses = length segs;
               max_uses = (case n_max_uses seg_schema of None \<Rightarrow> - 1 | Some m \<Rightarrow> m);
               errs1 = (if - 1 < max_uses \<and> max_uses < int num_uses
                        then errs @ [ValidationError (TypeName ''segment'') seg_id (Some seg_id)
                                       (SegmentRepeats num_uses max_uses)]
                        else errs)
           in validate_single_segments seg_id segs seg_schema errs1)
      | _ \<Rightarrow> validate_single_segment seg_id seg_data seg_schema errs)"


definition append_if :: "bool \<Rightarrow> validation_error \<Rightarrow> validation_error list \<Rightarrow> validation_error list" where
  "append_if b e errs = (if b then errs @ [e] else errs)"

definition element_error :: "string \<Rightarrow> string option \<Rightarrow> vkind \<Rightarrow> validation_error" where
  "element_error element_id seg k = ValidationError (TypeName ''element'') element_id seg k"

definition validate_element :: "pylib \<Rightarrow> string option \<Rightarrow> string \<Rightarrow> pyval \<Rightarrow> node option \<Rightarrow> validation_error list \<Rightarrow> error + validation_error list" where
  "validate_element rt seg_id element_id element_value element_schema errs =
     (case element_schema of
        None \<Rightarrow> Inl PyTypeError
      | Some schema \<Rightarrow>
          if element_value = VNone then
            (case n_req schema of
               None \<Rightarrow> Inl (PyKeyError ''req'')
             | Some r \<Rightarrow>
                 if r = ''M'' then Inr (errs @ [element_error element_id seg_id ElementIsMandatory])
                 else if r \<noteq> ''O'' \<and> r \<noteq> ''C''
                 then Inr (errs @ [element_error element_id None (UnknownReqValue r)])
                 else Inr errs)
          else
            (case n_data_type schema of
               None \<Rightarrow> Inl (PyKeyError ''data_type'')
             | Some element_type \<Rightarrow>
                 (case n_length schema of
                    None \<Rightarrow> Inl (PyKeyError ''length'')
                  | Some (min_len, max_len) \<Rightarrow>
                      (case (if element_type = ''DT'' then
                               Inr (append_if (\<not> (case element_value of VDateTime _ \<Rightarrow> True | _ \<Rightarrow> False))
                                      (element_error element_id seg_id InvalidDateType)
                                   (append_if (max_len \<noteq> 6 \<and> max_len \<noteq> 8)
                                      (element_error element_id seg_id (InvalidDateLength max_len)) errs))
                             else if element_type = ''TM'' then
                               Inr (append_if (\<not> (case element_value of VDateTime _ \<Rightarrow> True | _ \<Rightarrow> False))
                                      (element_error element_id None InvalidTimeType)
                                   (append_if (max_len \<noteq> 4 \<and> max_len \<noteq> 6 \<and> max_len \<noteq> 7 \<and> max_len \<noteq> 8)
                                      (element_error element_id seg_id (InvalidTimeLength max_len)) errs))
                             else if element_type = ''R'' then
                               Inr (append_if (\<not> (case element_value of VFloat _ \<Rightarrow> True | _ \<Rightarrow> False))
                                      (element_error element_id seg_id InvalidDecimalType) errs)
                             else if take 1 element_type = ''N'' then
                               Inr (append_if
                                      (\<not> (case element_value of VFloat _ \<Rightarrow> True | VInt _ \<Rightarrow> True | _ \<Rightarrow> False))
                                      (element_error element_id seg_id InvalidNumberType) errs)
                             else if element_type = ''ID'' then
                               (case n_data_type_ids schema of
                                  None \<Rightarrow> Inr errs
                                | Some data_type_ids \<Rightarrow>
                                    if data_type_ids = [] then Inr errs
                                    else
                                      (case element_value of
                                         VList _ \<Rightarrow> Inl PyTypeError
                                       | VDict _ \<Rightarrow> Inl PyTypeError
                                       | VStr s \<Rightarrow>
                                           Inr (append_if (s \<notin> set (map fst data_type_ids))
                                                  (element_error element_id seg_id
                                                     (InvalidIdValue element_value (map fst data_type_ids)))
                                                  errs)
                                       | _ \<Rightarrow>
                                           Inr (errs @ [element_error element_id seg_id
                                                  (InvalidIdValue element_value (map fst data_type_ids))])))
                             else Inr errs) of
                         Inl e \<Rightarrow> Inl e
                       | Inr errs1 \<Rightarrow>
                           if element_type \<noteq> ''DT'' \<and> element_type \<noteq> ''TM'' then
                             (let data_len = length (py_str rt element_value) in
                              if take 1 element_type = ''N'' then
                                Inr (append_if (max_len < int data_len)
                                       (element_error element_id seg_id
                                          (LengthGreaterThanMax data_len max_len)) errs1)
                              else
                                Inr (append_if (int data_len < min_len \<or> max_len < int data_len)
                                       (element_error element_id seg_id
                                          (LengthOutsideRange data_len min_len max_len)) errs1))
                           else Inr errs1))))"

fun validate_composite :: "pylib \<Rightarrow> string option \<Rightarrow> (string \<times> pyval) list \<Rightarrow> node list \<Rightarrow> validation_error list \<Rightarrow> error + validation_error list" where
  "validate_composite rt parent [] comp_schemas errs = Inr errs"
| "validate_composite rt parent ((comp_name, comp_data) # rest) comp_schemas errs =
     (case validate_element rt parent comp_name comp_data (find_schema comp_name comp_schemas) errs of
        Inl e \<Rightarrow> Inl e
      | Inr errs1 \<Rightarrow> validate_composite rt parent rest comp_schemas errs1)"

function validate_children :: "pylib \<Rightarrow> string option \<Rightarrow> pyval \<Rightarrow> node list \<Rightarrow> validation_error list \<Rightarrow> error + validation_error list"
  and validate_items :: "pylib \<Rightarrow> string option \<Rightarrow> (string \<times> pyval) list \<Rightarrow> node list \<Rightarrow> validation_error list \<Rightarrow> error + validation_error list"
  and validate_each :: "pylib \<Rightarrow> string option \<Rightarrow> pyval list \<Rightarrow> node list \<Rightarrow> validation_error list \<Rightarrow> error + validation_error list"
where
  "validate_children rt parent children schemas errs =
     (if schemas = [] then Inl PyTypeError
      else
        (case children of
           VDict d \<Rightarrow>
             (case validate_required d schemas errs of
                Inl e \<Rightarrow> Inl e
              | Inr errs1 \<Rightarrow> validate_items rt parent d schemas errs1)
         | VList xs \<Rightarrow> validate_each rt parent xs schemas errs
         | _ \<Rightarrow>
             Inr (errs @ [ValidationError (TypeOf children) ''unknown'' None ChildrenNotDictOrList])))"
| "validate_items rt parent [] schemas errs = Inr errs"
| "validate_items rt parent ((name, data) # rest) schemas errs =
     (case find_schema name schemas of
        None \<Rightarrow>
          validate_items rt parent rest schemas
            (errs @ [ValidationError (TypeOf (VStr name)) name None
                       (UnexpectedChild (map n_id schemas))])
      | Some child_schema \<Rightarrow>
          if (is_dict data \<or> is_list data) \<and> n_type child_schema \<noteq> ''composite'' then
            (case (if n_type child_schema = ''segment''
                   then validate_segment name data child_schema errs
                   else if n_type child_schema = ''loop''
                   then validate_loop name data child_schema errs
                   else Inr (errs @ [ValidationError (TypeName (n_type child_schema)) name None
                                       (UnknownType (n_type child_schema))])) of
               Inl e \<Rightarrow> Inl e
             | Inr errs1 \<Rightarrow>
                 (case validate_children rt (Some name) data (get_child_schemas child_schema) errs1 of
                    Inl e \<Rightarrow> Inl e
                  | Inr errs2 \<Rightarrow> validate_items rt parent rest schemas errs2))
          else
            (case (if n_type child_schema = ''element''
                   then validate_element rt parent name data (Some child_schema) errs
                   else if n_type child_schema = ''composite'' then
                     (case data of
                        VDict comp_items \<Rightarrow>
                          validate_composite rt parent comp_items (get_child_schemas child_schema) errs
                      | _ \<Rightarrow> Inl (PyAttributeError ''items''))
                   else if py_truthy data
                   then Inr (errs @ [ValidationError (TypeName (n_type child_schema)) name None
                                       (UnexpectedType (n_type child_schema))])
                   else Inr errs) of
               Inl e \<Rightarrow> Inl e
             | Inr errs1 \<Rightarrow> validate_items rt parent rest schemas errs1))"
| "validate_each rt parent [] schemas errs = Inr errs"
| "validate_each rt parent (each # rest) schemas errs =
     (case validate_children rt parent each schemas errs of
        Inl e \<Rightarrow> Inl e
      | Inr errs1 \<Rightarrow> validate_each rt parent rest schemas errs1)"
  by pat_completeness auto
termination
  by (relation "measure
     (\<lambda>x. case x of
             Inl (rt, parent, children, schemas, errs) \<Rightarrow> 2 * size children + 1
           | Inr (Inl (rt, parent, items, schemas, errs)) \<Rightarrow>
               2 * size_list (size_prod (\<lambda>x. 0) size) items
           | Inr (Inr (rt, parent, xs, schemas, errs)) \<Rightarrow> 2 * size_list size xs)")
    auto

fun required_segments :: "(string \<times> pyval) list \<Rightarrow> string list \<Rightarrow> validation_error list \<Rightarrow> validation_error list" where
  "required_segments edi_data [] errs = errs"
| "required_segments edi_data (req_seg # rest) errs =
     required_segments edi_data rest
       (append_if (req_seg \<notin> set (map fst edi_data))
          (ValidationError (TypeName ''segment'') req_seg (Some req_seg) RequiredSegmentNotFound) errs)"

definition validate :: "pylib \<Rightarrow> pyval \<Rightarrow> node list \<Rightarrow> error + validation_error list" where
  "validate rt edi_data edi_format =
     (case edi_data of
        VDict d \<Rightarrow> validate_children rt None edi_data edi_format (required_segments d REQUIRED_SEGMENTS [])
      | _ \<Rightarrow> Inl (PyAttributeError ''keys''))"

text \<open>Example documents in the shape the validator reads (segments as dicts).\<close>

definition n1_dict :: "string \<Rightarrow> pyval" where
  "n1_dict x = VDict [(''N1'', VDict [(''N101'', VStr x)])]"

definition st_dict :: "string \<times> pyval" where
  "st_dict = (''ST'', VDict [(''ST01'', VStr ''810''), (''ST02'', VStr ''0001'')])"

section \<open>The decoder (EDIParser)\<close>

text \<open>
  The parser object. \<^verbatim>\<open>__init__\<close> assigns the three delimiters and \<^verbatim>\<open>edi_format\<close>. The
  attributes \<^verbatim>\<open>version\<close>, \<^verbatim>\<open>component_element_delimiter\<close> and \<^verbatim>\<open>trans_set\<close> are first assigned
  while parsing, and \<^verbatim>\<open>trans_set_specified\<close> is assigned nowhere in the sources: they are
  unset (\<open>None\<close>) after \<^verbatim>\<open>__init__\<close>, and reading an unset attribute is an AttributeError.
\<close>

record parser =
  p_element_delimiter :: string
  p_segment_delimiter :: string
  p_data_delimiter :: string
  p_edi_format :: "node list option"
  p_version :: "string option"
  p_component_element_delimiter :: "string option"
  p_trans_set :: "string option"
  p_trans_set_specified :: "bool option"

definition fresh_parser :: "string \<Rightarrow> string \<Rightarrow> string \<Rightarrow> parser" where
  "fresh_parser element_delimiter segment_delimiter data_delimiter =
     \<lparr> p_element_delimiter = element_delimiter, p_segment_delimiter = segment_delimiter,
       p_data_delimiter = data_delimiter, p_edi_format = None, p_version = None,
       p_component_element_delimiter = None, p_trans_set = None,
       p_trans_set_specified = None \<rparr>"

definition EDIParser_init :: "(string \<times> node list) list \<Rightarrow> string option \<Rightarrow> string \<Rightarrow> string \<Rightarrow> string \<Rightarrow> error + parser" where
  "EDIParser_init supported_formats edi_format element_delimiter segment_delimiter data_delimiter =
     (let p = fresh_parser element_delimiter segment_delimiter data_delimiter
      in case edi_format of
           None \<Rightarrow> Inr p
         | Some name \<Rightarrow>
             (case map_of supported_formats name of
                Some fmt \<Rightarrow> Inr (p\<lparr>p_edi_format := Some fmt\<rparr>)
              | None \<Rightarrow> Inl (UnsupportedEDIFormat name)))"

text \<open>
  \<^verbatim>\<open>s.split(sep)\<close>: the pieces between the occurrences of \<open>sep\<close>, found from left to right;
  an empty separator is a ValueError.
\<close>

function split_from :: "string \<Rightarrow> string \<Rightarrow> string \<Rightarrow> string list" where
  "split_from sep acc s =
     (if sep = [] then [acc @ s]
      else (case s of
              [] \<Rightarrow> [acc]
            | c # cs \<Rightarrow>
                if take (length sep) s = sep then acc # split_from sep [] (drop (length sep) s)
                else split_from sep (acc @ [c]) cs))"
  by pat_completeness auto
termination
  by (relation "measure (\<lambda>(sep, acc, s). length s)") auto

declare split_from.simps [simp del]

definition py_split :: "string \<Rightarrow> string \<Rightarrow> error + string list" where
  "py_split s sep = (if sep = [] then Inl PyValueError else Inr (split_from sep [] s))"

definition py_split_first :: "string \<Rightarrow> string \<Rightarrow> error + string" where
  "py_split_first s sep =
     (case py_split s sep of
        Inl e \<Rightarrow> Inl e
      | Inr parts \<Rightarrow> (case parts of [] \<Rightarrow> Inl PyIndexError | x # _ \<Rightarrow> Inr x))"

text \<open>
  \<^verbatim>\<open>parse_isa_header\<close>. \<open>isa_fields\<close> is its \<^verbatim>\<open>for\<close> loop over the enumerated header fields
  and \<open>isa16\<close> the branch for index 16.
\<close>

definition isa16 :: "parser \<Rightarrow> string \<Rightarrow> parser" where
  "isa16 p last_header_field =
     (let p1 = p\<lparr>p_component_element_delimiter := Some (take 1 last_header_field)\<rparr>
      in if take 1 (drop 1 last_header_field) \<noteq> []
         then p1\<lparr>p_segment_delimiter :=
                   take 1 (drop 1 last_header_field)
                   @ filter (\<lambda>delimiter. delimiter = CHR 0x0D \<or> delimiter = CHR 0x0A)
                       (take 2 (drop 2 last_header_field))\<rparr>
         else p1)"

fun isa_fields :: "nat \<Rightarrow> string list \<Rightarrow> parser \<Rightarrow> parser" where
  "isa_fields index [] p = p"
| "isa_fields index (isa # rest) p =
     (let p1 = (if index = 11 then p\<lparr>p_data_delimiter := isa\<rparr> else p)
      in if index = 12 then isa_fields (Suc index) rest (p1\<lparr>p_version := Some isa\<rparr>)
         else if index = 16 then isa_fields (Suc index) rest (isa16 p1 isa)
         else if 16 < index then p1
         else isa_fields (Suc index) rest p1)"

definition parse_isa_header :: "parser \<Rightarrow> string \<Rightarrow> error + parser" where
  "parse_isa_header p data =
     (if take 3 data \<noteq> ''ISA'' then Inl NotEDI
      else
        (let element_delimiter = take 1 (drop 3 data)
         in case py_split data element_delimiter of
              Inl e \<Rightarrow> Inl e
            | Inr header_field_list \<Rightarrow>
                Inr (isa_fields 0 header_field_list (p\<lparr>p_element_delimiter := element_delimiter\<rparr>))))"

text \<open>\<^verbatim>\<open>d[k] = v\<close>: an existing key keeps its place.\<close>

fun dict_set :: "('k \<times> 'v) list \<Rightarrow> 'k \<Rightarrow> 'v \<Rightarrow> ('k \<times> 'v) list" where
  "dict_set [] k v = [(k, v)]"
| "dict_set ((k', v') # rest) k v =
     (if k' = k then (k, v) # rest else (k', v') # dict_set rest k v)"

definition parse_element :: "pylib \<Rightarrow> string \<Rightarrow> node \<Rightarrow> error + pyval" where
  "parse_element rt field element =
     (case n_data_type element of
        None \<Rightarrow> Inl (PyKeyError ''data_type'')
      | Some dt \<Rightarrow>
          if dt = ''DT'' then
            (if length field = 8 then
               (case strptime rt field ''%Y%m%d'' of
                  None \<Rightarrow> Inl PyValueError
                | Some d \<Rightarrow> Inr (VDateTime d))
             else if length field = 6 then
               (case strptime rt field ''%y%m%d'' of
                  None \<Rightarrow> Inl PyValueError
                | Some d \<Rightarrow> Inr (VDateTime d))
             else if field = [] then Inr VNone
             else Inr (VStr field))
          else if dt = ''TM'' then
            (if length field = 4 then
               (case strptime rt field ''%H%M'' of
                  None \<Rightarrow> Inl PyValueError
                | Some d \<Rightarrow> Inr (VDateTime d))
             else if length field = 6 then
               (case strptime rt field ''%H%M%S'' of
                  None \<Rightarrow> Inl PyValueError
                | Some d \<Rightarrow> Inr (VDateTime d))
             else Inr VNone)
          else if dt = ''N0'' then
            (if field \<noteq> [] then
               (case int_of_str rt field of
                  None \<Rightarrow> Inl PyValueError
                | Some i \<Rightarrow> Inr (VInt i))
             else Inr VNone)
          else if take 1 dt = ''N'' then
            (if field \<noteq> [] then
               (case float_of_str rt (filter (\<lambda>c. c \<noteq> CHR ''.'') field) of
                  None \<Rightarrow> Inl PyValueError
                | Some q \<Rightarrow>
                    (case int_of_str rt [last dt] of
                       None \<Rightarrow> Inl PyValueError
                     | Some k \<Rightarrow>
                         (case to_double rt (q / 10 ^ nat k) of
                            None \<Rightarrow> Inl PyOverflowError
                          | Some x \<Rightarrow> Inr (VFloat x))))
             else Inr VNone)
          else if dt = ''R'' then
            (if field \<noteq> [] then
               (case float_of_str rt field of
                  None \<Rightarrow> Inl PyValueError
                | Some q \<Rightarrow> Inr (VFloat q))
             else Inr VNone)
          else if dt = ''AN'' \<or> dt = ''ID'' then
            (if field \<noteq> [] then Inr (VStr field) else Inr VNone)
          else Inr (VStr field))"

text \<open>The dict comprehension over the sub-elements of a composite.\<close>

fun parse_components :: "pylib \<Rightarrow> (string \<times> node) list \<Rightarrow> (string \<times> pyval) list \<Rightarrow> error + (string \<times> pyval) list" where
  "parse_components rt [] acc = Inr acc"
| "parse_components rt ((comp_field, comp_element) # rest) acc =
     (case parse_element rt comp_field comp_element of
        Inl e \<Rightarrow> Inl e
      | Inr v \<Rightarrow> parse_components rt rest (dict_set acc (n_id comp_element) v))"

text \<open>The body of the \<^verbatim>\<open>for\<close> loop of \<^verbatim>\<open>parse_segment\<close>: the value of one field.\<close>

definition parse_field :: "pylib \<Rightarrow> parser \<Rightarrow> string \<Rightarrow> string \<Rightarrow> node \<Rightarrow> error + pyval" where
  "parse_field rt p seg_id field element =
     (if n_type element = ''element'' then parse_element rt field element
      else if n_type element = ''composite'' then
        (case p_component_element_delimiter p of
           None \<Rightarrow> Inl (PyAttributeError ''component_element_delimiter'')
         | Some d \<Rightarrow>
             (case py_split field d of
                Inl e \<Rightarrow> Inl e
              | Inr parts \<Rightarrow>
                  (case parse_components rt (zip parts (n_elements element)) [] of
                     Inl e \<Rightarrow> Inl e
                   | Inr sub_elements \<Rightarrow> Inr (VDict sub_elements))))
      else Inl (UnknownElementTypeOfSegment (n_id element) seg_id (n_type element)))"

fun parse_fields :: "pylib \<Rightarrow> parser \<Rightarrow> string \<Rightarrow> (string \<times> node) list \<Rightarrow> (string \<times> pyval) list \<Rightarrow> error + (string \<times> pyval) list" where
  "parse_fields rt p seg_id [] to_return = Inr to_return"
| "parse_fields rt p seg_id ((field, element) # rest) to_return =
     (case parse_field rt p seg_id field element of
        Inl e \<Rightarrow> Inl e
      | Inr v \<Rightarrow> parse_fields rt p seg_id rest (dict_set to_return (n_id element) v))"

definition parse_segment :: "pylib \<Rightarrow> parser \<Rightarrow> string \<Rightarrow> node \<Rightarrow> error + (string \<times> pyval) list" where
  "parse_segment rt p segment segment_format =
     (case py_split segment (p_element_delimiter p) of
        Inl e \<Rightarrow> Inl e
      | Inr field_list \<Rightarrow>
          (case field_list of
             [] \<Rightarrow> Inl PyIndexError
           | name # payload \<Rightarrow>
               if name \<noteq> n_id segment_format
               then Inl (SegmentMismatch name (n_id segment_format))
               else if length (n_elements segment_format) < length payload
               then Inl (TooManyElements (n_id segment_format)
                           (length (n_elements segment_format)) (length payload))
               else parse_fields rt p (n_id segment_format)
                      (zip payload (n_elements segment_format)) []))"

fun parse_repeating_segment :: "pylib \<Rightarrow> parser \<Rightarrow> string list \<Rightarrow> node \<Rightarrow> error + (pyval list \<times> string list)" where
  "parse_repeating_segment rt p [] segment_format = Inr ([], [])"
| "parse_repeating_segment rt p (segment # rest) segment_format =
     (case py_split_first segment (p_element_delimiter p) of
        Inl e \<Rightarrow> Inl e
      | Inr segment_name \<Rightarrow>
          if segment_name \<noteq> n_id segment_format then Inr ([], segment # rest)
          else
            (case parse_segment rt p segment segment_format of
               Inl e \<Rightarrow> Inl e
             | Inr d \<Rightarrow>
                 (case parse_repeating_segment rt p rest segment_format of
                    Inl e \<Rightarrow> Inl e
                  | Inr (seg_list, remaining) \<Rightarrow> Inr (VDict d # seg_list, remaining))))"

definition is_list_type :: "string \<Rightarrow> string \<Rightarrow> bool" where
  "is_list_type seg_id segment_name =
     (seg_id = ''L_'' @ segment_name \<or> seg_id = ''S_'' @ segment_name)"

text \<open>
  \<^verbatim>\<open>parse_loop\<close>. Its \<^verbatim>\<open>while\<close> loop need not consume a segment in every round (a nested
  loop whose children do not match returns an empty list and the same segments), so the
  functions take fuel, and \<open>None\<close> is running out of it. \<open>loop_formats\<close> is the inner
  \<^verbatim>\<open>for\<close> loop, which has no \<^verbatim>\<open>break\<close>: it carries \<^verbatim>\<open>segment_name\<close>, \<^verbatim>\<open>segment_obj\<close> and
  \<^verbatim>\<open>edi_segments\<close> through all child formats, while \<^verbatim>\<open>segment\<close> stays the head it started
  from. \<open>match_segment\<close> is the first two branches of its body, for a child format whose id
  is the segment's name.
\<close>

definition match_segment :: "pylib \<Rightarrow> parser \<Rightarrow> string \<Rightarrow> node \<Rightarrow> string \<times> pyval option \<times> string list \<Rightarrow> error + (string \<times> pyval option \<times> string list)" where
  "match_segment rt p segment seg_format st =
     (case st of
        (segment_name, segment_obj, edi_segments) \<Rightarrow>
          if n_id seg_format = segment_name then
            (case n_max_uses seg_format of
               None \<Rightarrow> Inl (PyKeyError ''max_uses'')
             | Some max_uses \<Rightarrow>
                 if max_uses = 1 then
                   (case parse_segment rt p segment seg_format of
                      Inl e \<Rightarrow> Inl e
                    | Inr d \<Rightarrow> Inr (segment_name, Some (VDict d), drop 1 edi_segments))
                 else if max_uses = - 1 \<or> 1 < max_uses then
                   (case parse_repeating_segment rt p edi_segments seg_format of
                      Inl e \<Rightarrow> Inl e
                    | Inr (seg_list, remaining) \<Rightarrow>
                        Inr (segment_name, Some (VList seg_list), remaining))
                 else Inr st)
          else Inr st)"

fun parse_loop :: "nat \<Rightarrow> pylib \<Rightarrow> parser \<Rightarrow> string list \<Rightarrow> node \<Rightarrow> (error + (pyval list \<times> string list)) option"
  and loop_while :: "nat \<Rightarrow> pylib \<Rightarrow> parser \<Rightarrow> node \<Rightarrow> string list \<Rightarrow> pyval list \<Rightarrow> (string \<times> pyval) list \<Rightarrow> (error + (pyval list \<times> string list)) option"
  and loop_formats :: "nat \<Rightarrow> pylib \<Rightarrow> parser \<Rightarrow> string \<Rightarrow> node list \<Rightarrow> string \<times> pyval option \<times> string list \<Rightarrow> (error + (string \<times> pyval option \<times> string list)) option"
where
  "parse_loop 0 rt p edi_segments loop_format = None"
| "parse_loop (Suc n) rt p edi_segments loop_format = loop_while n rt p loop_format edi_segments [] []"
| "loop_while 0 rt p loop_format edi_segments loop_list loop_dict = None"
| "loop_while (Suc n) rt p loop_format [] loop_list loop_dict =
     Some (Inr (if loop_dict \<noteq> [] then loop_list @ [VDict loop_dict] else loop_list, []))"
| "loop_while (Suc n) rt p loop_format (segment # rest) loop_list loop_dict =
     (case py_split_first segment (p_element_delimiter p) of
        Inl e \<Rightarrow> Some (Inl e)
      | Inr segment_name \<Rightarrow>
          (case loop_formats n rt p segment (n_segments loop_format)
                  (segment_name, None, segment # rest) of
             None \<Rightarrow> None
           | Some (Inl e) \<Rightarrow> Some (Inl e)
           | Some (Inr (segment_name', None, edi_segments')) \<Rightarrow>
               Some (Inr (if loop_dict \<noteq> [] then loop_list @ [VDict loop_dict] else loop_list,
                          edi_segments'))
           | Some (Inr (segment_name', Some obj, edi_segments')) \<Rightarrow>
               (case n_segments loop_format of
                  [] \<Rightarrow> Some (Inl PyIndexError)
                | first # _ \<Rightarrow>
                    (let new_iteration = (segment_name' = n_id first \<and> loop_dict \<noteq> [])
                     in loop_while n rt p loop_format edi_segments'
                          (if new_iteration then loop_list @ [VDict loop_dict] else loop_list)
                          (dict_set (if new_iteration then [] else loop_dict) segment_name' obj)))))"
| "loop_formats n rt p segment [] st = Some (Inr st)"
| "loop_formats n rt p segment (seg_format # rest) st =
     (case (if n_id seg_format \<noteq> fst st \<and> is_list_type (n_id seg_format) (fst st) then
              (case parse_loop n rt p (snd (snd st)) seg_format of
                 None \<Rightarrow> None
               | Some (Inl e) \<Rightarrow> Some (Inl e)
               | Some (Inr (loop_list, remaining)) \<Rightarrow>
                   Some (Inr (n_id seg_format, Some (VList loop_list), remaining)))
            else Some (match_segment rt p segment seg_format st)) of
        None \<Rightarrow> None
      | Some (Inl e) \<Rightarrow> Some (Inl e)
      | Some (Inr st') \<Rightarrow> loop_formats n rt p segment rest st')"

text \<open>
  The \<^verbatim>\<open>for\<close> loop of \<^verbatim>\<open>parse_segments\<close> over the formats of the transaction set, which
  leaves at the first match (\<^verbatim>\<open>break\<close>): the name, the parsed object and the remaining
  segments, or \<open>None\<close> when no format matches.
\<close>

fun walk_formats :: "nat \<Rightarrow> pylib \<Rightarrow> parser \<Rightarrow> string \<Rightarrow> string list \<Rightarrow> string \<Rightarrow> node list \<Rightarrow> (error + (string \<times> pyval \<times> string list) option) option" where
  "walk_formats n rt p segment edi_segments segment_name [] = Some (Inr None)"
| "walk_formats n rt p segment edi_segments segment_name (seg_format # rest) =
     (if n_id seg_format = segment_name then
        (case n_max_uses seg_format of
           None \<Rightarrow> Some (Inl (PyKeyError ''max_uses''))
         | Some max_uses \<Rightarrow>
             if max_uses = 1 then
               (case parse_segment rt p segment seg_format of
                  Inl e \<Rightarrow> Some (Inl e)
                | Inr d \<Rightarrow> Some (Inr (Some (segment_name, VDict d, drop 1 edi_segments))))
             else if max_uses = - 1 \<or> 1 < max_uses then
               (case parse_repeating_segment rt p edi_segments seg_format of
                  Inl e \<Rightarrow> Some (Inl e)
                | Inr (seg_list, remaining) \<Rightarrow>
                    Some (Inr (Some (segment_name, VList seg_list, remaining))))
             else walk_formats n rt p segment edi_segments segment_name rest)
      else if is_list_type (n_id seg_format) segment_name then
        (case parse_loop n rt p edi_segments seg_format of
           None \<Rightarrow> None
         | Some (Inl e) \<Rightarrow> Some (Inl e)
         | Some (Inr (loop_list, remaining)) \<Rightarrow>
             Some (Inr (Some (n_id seg_format, VList loop_list, remaining))))
      else walk_formats n rt p segment edi_segments segment_name rest)"

text \<open>
  Storing a parsed object under its name: a name seen before has its value promoted to a
  list (when it is a dict) and extended.
\<close>

definition store_segment :: "string list \<times> (string \<times> pyval) list \<Rightarrow> string \<Rightarrow> pyval \<Rightarrow> string list \<times> (string \<times> pyval) list" where
  "store_segment acc segment_name segment_obj =
     (case acc of
        (found_segments, to_return) \<Rightarrow>
          (case map_of to_return segment_name of
             None \<Rightarrow> (found_segments @ [segment_name], dict_set to_return segment_name segment_obj)
           | Some current \<Rightarrow>
               (let as_list = (case current of VList xs \<Rightarrow> xs | _ \<Rightarrow> [current])
                in (found_segments,
                    dict_set to_return segment_name
                      (VList (as_list @ (case segment_obj of VList ys \<Rightarrow> ys | _ \<Rightarrow> [segment_obj])))))))"

text \<open>
  The \<^verbatim>\<open>while\<close> loop of \<^verbatim>\<open>parse_segments\<close>, with fuel for the same reason as \<^verbatim>\<open>parse_loop\<close>.
  \<^verbatim>\<open>Debug.log_error\<close> only prints and is left out.
\<close>

fun walk :: "nat \<Rightarrow> pylib \<Rightarrow> parser \<Rightarrow> node list \<Rightarrow> string list \<Rightarrow> string list \<times> (string \<times> pyval) list \<Rightarrow> (error + (string list \<times> (string \<times> pyval) list)) option" where
  "walk 0 rt p edi_format edi_segments acc = None"
| "walk (Suc n) rt p edi_format [] acc = Some (Inr acc)"
| "walk (Suc n) rt p edi_format (segment # rest) acc =
     (if segment = [] then walk n rt p edi_format rest acc
      else
        (case py_split_first segment (p_element_delimiter p) of
           Inl e \<Rightarrow> Some (Inl e)
         | Inr segment_name \<Rightarrow>
             (case walk_formats n rt p segment (segment # rest) segment_name edi_format of
                None \<Rightarrow> None
              | Some (Inl e) \<Rightarrow> Some (Inl e)
              | Some (Inr None) \<Rightarrow> walk n rt p edi_format rest acc
              | Some (Inr (Some (segment_name', segment_obj, remaining))) \<Rightarrow>
                  walk n rt p edi_format remaining (store_segment acc segment_name' segment_obj))))"

text \<open>
  \<^verbatim>\<open>parse_required_segments\<close>: the dict from segment names to segments (a later segment
  of the same name replaces an earlier one), then \<^verbatim>\<open>parse_st_header\<close> and
  \<^verbatim>\<open>verify_ending_segments\<close>.
\<close>

fun segment_map :: "string \<Rightarrow> string list \<Rightarrow> (string \<times> string) list \<Rightarrow> error + (string \<times> string) list" where
  "segment_map element_delimiter [] m = Inr m"
| "segment_map element_delimiter (segment # rest) m =
     (case py_split_first segment element_delimiter of
        Inl e \<Rightarrow> Inl e
      | Inr name \<Rightarrow> segment_map element_delimiter rest (dict_set m name segment))"

definition parse_st_header :: "parser \<Rightarrow> (string \<times> string) list \<Rightarrow> error + parser" where
  "parse_st_header p edi_segment_map =
     (case map_of edi_segment_map ''ST'' of
        None \<Rightarrow> Inl (MissingRequiredSegment ''ST'')
      | Some st \<Rightarrow>
          (case p_trans_set_specified p of
             None \<Rightarrow> Inl (PyAttributeError ''trans_set_specified'')
           | Some specified \<Rightarrow>
               if \<not> specified then
                 (case py_split st (p_element_delimiter p) of
                    Inl e \<Rightarrow> Inl e
                  | Inr parts \<Rightarrow>
                      (case drop 1 parts of
                         [] \<Rightarrow> Inl PyIndexError
                       | ts # _ \<Rightarrow> Inr (p\<lparr>p_trans_set := Some ts\<rparr>)))
               else Inr p))"

definition get_segment_format :: "(string \<times> node list) list \<Rightarrow> string \<Rightarrow> error + node" where
  "get_segment_format supported_formats segment_id =
     (case map_of supported_formats segment_id of
        None \<Rightarrow> Inl (MissingSegmentFormat segment_id)
      | Some segment_format \<Rightarrow>
          (case segment_format of
             [] \<Rightarrow> Inl (EmptySegmentFormat segment_id)
           | head # _ \<Rightarrow> Inr head))"

fun verify_ending_segments :: "(string \<times> node list) list \<Rightarrow> (string \<times> string) list \<Rightarrow> string list \<Rightarrow> error option" where
  "verify_ending_segments supported_formats edi_segment_map [] = None"
| "verify_ending_segments supported_formats edi_segment_map (seg_id # rest) =
     (case get_segment_format supported_formats seg_id of
        Inl e \<Rightarrow> Some e
      | Inr segment_format \<Rightarrow>
          if n_id segment_format \<notin> set (map fst edi_segment_map)
          then Some (MissingRequiredSegment (n_id segment_format))
          else verify_ending_segments supported_formats edi_segment_map rest)"

definition parse_required_segments :: "(string \<times> node list) list \<Rightarrow> parser \<Rightarrow> string list \<Rightarrow> error + parser" where
  "parse_required_segments supported_formats p edi_segments =
     (case segment_map (p_element_delimiter p) edi_segments [] of
        Inl e \<Rightarrow> Inl e
      | Inr edi_segment_map \<Rightarrow>
          (case parse_st_header p edi_segment_map of
             Inl e \<Rightarrow> Inl e
           | Inr p1 \<Rightarrow>
               (case verify_ending_segments supported_formats edi_segment_map [''IEA'', ''SE''] of
                  Some e \<Rightarrow> Inl e
                | None \<Rightarrow> Inr p1)))"

text \<open>
  \<^verbatim>\<open>parse_segments\<close> and \<^verbatim>\<open>parse\<close>. They return the pair (\<^verbatim>\<open>found_segments\<close>, \<^verbatim>\<open>to_return\<close>);
  the model returns the updated parser object with it.
\<close>

definition parse_segments :: "nat \<Rightarrow> (string \<times> node list) list \<Rightarrow> pylib \<Rightarrow> parser \<Rightarrow> string list \<Rightarrow> (error + ((string list \<times> (string \<times> pyval) list) \<times> parser)) option" where
  "parse_segments fuel supported_formats rt p edi_segments =
     (case parse_required_segments supported_formats p edi_segments of
        Inl e \<Rightarrow> Some (Inl e)
      | Inr p1 \<Rightarrow>
          (case (if p_edi_format p1 = None \<or> p_edi_format p1 = Some []
                 then (case p_trans_set p1 of
                         None \<Rightarrow> Inl (PyAttributeError ''trans_set'')
                       | Some ts \<Rightarrow> Inr (p1\<lparr>p_edi_format := map_of supported_formats ts\<rparr>))
                 else Inr p1) of
             Inl e \<Rightarrow> Some (Inl e)
           | Inr p2 \<Rightarrow>
               (case p_edi_format p2 of
                  None \<Rightarrow> Some (Inl FormatMissing)
                | Some edi_format \<Rightarrow>
                    (case walk fuel rt p2 edi_format edi_segments ([], []) of
                       None \<Rightarrow> None
                     | Some (Inl e) \<Rightarrow> Some (Inl e)
                     | Some (Inr result) \<Rightarrow> Some (Inr (result, p2))))))"

definition parse :: "nat \<Rightarrow> (string \<times> node list) list \<Rightarrow> pylib \<Rightarrow> parser \<Rightarrow> string \<Rightarrow> (error + ((string list \<times> (string \<times> pyval) list) \<times> parser)) option" where
  "parse fuel supported_formats rt p data =
     (case parse_isa_header p data of
        Inl e \<Rightarrow> Some (Inl e)
      | Inr p1 \<Rightarrow>
          (case py_split data (p_segment_delimiter p1) of
             Inl e \<Rightarrow> Some (Inl e)
           | Inr edi_segments \<Rightarrow> parse_segments fuel supported_formats rt p1 edi_segments))"

text \<open>
  Splitting a string on one character, as the specification words it: the pieces between
  the occurrences of the character.
\<close>

fun split_on :: "char \<Rightarrow> string \<Rightarrow> string list" where
  "split_on c [] = [[]]"
| "split_on c (x # xs) =
     (if x = c then [] # split_on c xs
      else (case split_on c xs of [] \<Rightarrow> [[x]] | y # ys \<Rightarrow> (x # y) # ys))"


text \<open>Example interchanges, schemas and a composite element for the decoder.\<close>

definition interchange_text :: string where
  "interchange_text =
     ''ISA*00*a*00*b*ZZ*S*ZZ*R*200101*1200*U*00401*000000001*0*P*:~ST*810*0001~SE*2*0001~IEA*1*000000001~''"

definition interchange_without_st :: string where
  "interchange_without_st =
     ''ISA*00*a*00*b*ZZ*S*ZZ*R*200101*1200*U*00401*000000001*0*P*:~SE*2*0001~IEA*1*000000001~''"

definition se_node :: node where
  "se_node = segment_node ''SE'' ''M'' 1
     [element_node ''SE01'' ''M'' ''AN'' 1 10, element_node ''SE02'' ''M'' ''AN'' 4 9]"

definition iea_node :: node where
  "iea_node = segment_node ''IEA'' ''M'' 1
     [element_node ''IEA01'' ''M'' ''AN'' 1 5, element_node ''IEA02'' ''M'' ''AN'' 9 9]"

definition example_formats :: "(string \<times> node list) list" where
  "example_formats =
     [(''810'', [st_node, se_node, iea_node]), (''ST'', [st_node]), (''SE'', [se_node]),
      (''IEA'', [iea_node])]"





section \<open>The schema loader (supported_formats)\<close>

text \<open>
  \<^verbatim>\<open>replace_format_segment_placeholders\<close> walks a list of nodes and the children of its loops
  and returns the list as the in-place assignments leave it. For a placeholder it looks up
  \<^verbatim>\<open>replacement\<close> (or the placeholder's id) in the registry and checks the head's id; the next
  statement is \<^verbatim>\<open>copy.deepcopy(seg_data[0])\<close>. The module imports only \<^verbatim>\<open>os\<close> and \<^verbatim>\<open>json\<close>, so
  the name \<^verbatim>\<open>copy\<close> is unbound and evaluating it is a NameError; the statements after it
  (the overrides and the assignment into the list) never run. \<open>replace_segment_placeholders\<close>
  is the first loop of the function of that name, over all formats of the registry.
\<close>

function replace_format_segment_placeholders :: "(string \<times> node list) list \<Rightarrow> string \<Rightarrow> node list \<Rightarrow> string option \<Rightarrow> error + node list" where
  "replace_format_segment_placeholders supported_formats format_name [] loop_name = Inr []"
| "replace_format_segment_placeholders supported_formats format_name (segment # rest) loop_name =
     (if n_type segment = ''placeholder'' then
        (let replacement_id = (case n_replacement segment of None \<Rightarrow> n_id segment | Some r \<Rightarrow> r)
         in case map_of supported_formats replacement_id of
              None \<Rightarrow> Inl (MissingSegmentData replacement_id (n_id segment) format_name loop_name)
            | Some seg_data \<Rightarrow>
                (case seg_data of
                   [] \<Rightarrow> Inl (MissingSegmentData replacement_id (n_id segment) format_name loop_name)
                 | head # _ \<Rightarrow>
                     if n_id head \<noteq> n_id segment
                     then Inl (MissingSegmentData replacement_id (n_id segment) format_name loop_name)
                     else Inl (PyNameError ''copy'')))
      else
        (case (if n_type segment = ''loop''
               then (case replace_format_segment_placeholders supported_formats format_name
                            (n_segments segment) (Some (n_id segment)) of
                       Inl e \<Rightarrow> Inl e
                     | Inr segments' \<Rightarrow>
                         Inr (Node (n_type segment) (n_id segment) (n_name segment) (n_req segment)
                                (n_max_uses segment) (n_repeat segment) (n_data_type segment)
                                (n_length segment) (n_data_type_ids segment) (n_elements segment)
                                segments' (n_syntax segment) (n_replacement segment)))
               else Inr segment) of
           Inl e \<Rightarrow> Inl e
         | Inr segment' \<Rightarrow>
             (case replace_format_segment_placeholders supported_formats format_name rest loop_name of
                Inl e \<Rightarrow> Inl e
              | Inr rest' \<Rightarrow> Inr (segment' # rest'))))"
  by pat_completeness auto
termination
proof (relation "measure (\<lambda>(supported_formats, format_name, format_data, loop_name). size_list size format_data)")
  fix supported_formats :: "(string \<times> node list) list" and format_name :: string
    and segment :: node and rest :: "node list" and loop_name :: "string option"
  show "((supported_formats, format_name, n_segments segment, Some (n_id segment)),
         (supported_formats, format_name, segment # rest, loop_name))
        \<in> measure (\<lambda>(supported_formats, format_name, format_data, loop_name). size_list size format_data)"
    using size_n_segments [of segment] by simp
qed auto

fun replace_all_formats :: "(string \<times> node list) list \<Rightarrow> (string \<times> node list) list \<Rightarrow> error + (string \<times> node list) list" where
  "replace_all_formats supported_formats [] = Inr []"
| "replace_all_formats supported_formats ((format_name, format_data) # rest) =
     (case replace_format_segment_placeholders supported_formats format_name format_data None of
        Inl e \<Rightarrow> Inl e
      | Inr format_data' \<Rightarrow>
          (case replace_all_formats supported_formats rest of
             Inl e \<Rightarrow> Inl e
           | Inr rest' \<Rightarrow> Inr ((format_name, format_data') # rest')))"

definition replace_segment_placeholders :: "(string \<times> node list) list \<Rightarrow> error + (string \<times> node list) list" where
  "replace_segment_placeholders supported_formats = replace_all_formats supported_formats supported_formats"

definition placeholder_node :: "string \<Rightarrow> node" where
  "placeholder_node i =
     Node ''placeholder'' i None (Some ''O'') None None None None None [] [] None None"

section \<open>Shape conversion (utils.EDIConverter)\<close>

text \<open>
  \<^verbatim>\<open>to_element_list\<close> turns the segments of a document from dicts keyed by element name
  into positional lists, the shape the encoder reads. \<open>to_element_items\<close> is its \<^verbatim>\<open>for\<close>
  loop over the items of the input dict; a scalar that is true makes the dict itself a
  segment, returned as the list of its values.
\<close>

function to_element_list :: "pyval \<Rightarrow> error + pyval"
  and to_element_items :: "(string \<times> pyval) list \<Rightarrow> (string \<times> pyval) list \<Rightarrow> (string \<times> pyval) list \<Rightarrow> error + pyval"
  and to_element_lists :: "pyval list \<Rightarrow> error + pyval list"
where
  "to_element_list input_data =
     (case input_data of
        VDict d \<Rightarrow> to_element_items d d []
      | _ \<Rightarrow> Inl PyTypeError)"
| "to_element_items input_items [] output_data = Inr (VDict output_data)"
| "to_element_items input_items ((key, data) # rest) output_data =
     (case data of
        VDict segment \<Rightarrow>
          to_element_items input_items rest
            (dict_set output_data key
               (VList (map (\<lambda>kv. case map_of segment (fst kv) of None \<Rightarrow> VNone | Some v \<Rightarrow> v)
                         segment)))
      | VList list_values \<Rightarrow>
          (case to_element_lists list_values of
             Inl e \<Rightarrow> Inl e
           | Inr converted \<Rightarrow>
               to_element_items input_items rest (dict_set output_data key (VList converted)))
      | _ \<Rightarrow>
          if py_truthy data then Inr (VList (map snd input_items))
          else to_element_items input_items rest output_data)"
| "to_element_lists [] = Inr []"
| "to_element_lists (list_value # rest) =
     (case to_element_list list_value of
        Inl e \<Rightarrow> Inl e
      | Inr v \<Rightarrow>
          (case to_element_lists rest of
             Inl e \<Rightarrow> Inl e
           | Inr vs \<Rightarrow> Inr (v # vs)))"
  by pat_completeness auto
termination
  by (relation "measure
     (\<lambda>x. case x of
             Inl input_data \<Rightarrow> 2 * size input_data + 1
           | Inr (Inl (input_items, items, output_data)) \<Rightarrow>
               2 * size_list (size_prod (\<lambda>x. 0) size) items
           | Inr (Inr xs) \<Rightarrow> 2 * size_list size xs)")
    auto

text \<open>An invoice with its envelope, as dicts, as lists and as the encoder writes it.\<close>

definition isa_ids :: "string list" where
  "isa_ids = [''ISA01'', ''ISA02'', ''ISA03'', ''ISA04'', ''ISA05'', ''ISA06'', ''ISA07'', ''ISA08'',
              ''ISA09'', ''ISA10'', ''ISA11'', ''ISA12'', ''ISA13'', ''ISA14'', ''ISA15'', ''ISA16'']"

definition isa_values :: "string list" where
  "isa_values = [''00'', ''a'', ''00'', ''b'', ''ZZ'', ''S'', ''ZZ'', ''R'', ''200101'', ''1200'',
                 ''U'', ''00401'', ''000000001'', ''0'', ''P'', '':'']"

definition isa_node :: node where
  "isa_node = segment_node ''ISA'' ''M'' 1
     (map (\<lambda>i. element_node i ''M'' (if i = ''ISA16'' then [] else ''AN'') 1 15) isa_ids)"

definition invoice_formats :: "(string \<times> node list) list" where
  "invoice_formats =
     [(''810'', [isa_node, st_node, se_node, iea_node]), (''ST'', [st_node]), (''SE'', [se_node]),
      (''IEA'', [iea_node])]"

definition invoice :: pyval where
  "invoice =
     VDict [(''ISA'', VDict (zip isa_ids (map VStr isa_values))),
            st_dict,
            (''SE'', VDict [(''SE01'', VStr ''2''), (''SE02'', VStr ''0001'')]),
            (''IEA'', VDict [(''IEA01'', VStr ''1''), (''IEA02'', VStr ''000000001'')])]"

definition invoice_lists :: pyval where
  "invoice_lists =
     VDict [(''ISA'', VList (map VStr isa_values)),
            st_data,
            (''SE'', VList [VStr ''2'', VStr ''0001'']),
            (''IEA'', VList [VStr ''1'', VStr ''000000001''])]"

definition invoice_text :: string where
  "invoice_text = ''ISA^00^a^00^b^ZZ^S^ZZ^R^200101^1200^U^00401^000000001^0^P^:'' @ [CHR 0x0A]
     @ ''ST^810^0001'' @ [CHR 0x0A] @ ''SE^2^0001'' @ [CHR 0x0A] @ ''IEA^1^000000001'' @ [CHR 0x0A]"

lemmas example_defs =
  element_node_def segment_node_def loop_node_def st_node_def n1_node_def n2_node_def
  st_data_def n1_iteration_def EDIGenerator_init_def

lemmas validator_defs =
  validate_def REQUIRED_SEGMENTS_def append_if_def find_schema_def validate_loop_def py_len_def
  validate_segment_def validate_single_segment_def get_child_schemas_def is_dict_def is_list_def
  validate_element_def element_error_def py_str_def n1_dict_def st_dict_def

lemmas encoder_defs =
  build_def py_contains_def py_getitem_def py_first_def py_iter_def build_segment_list_def
  build_segment_def build_element_list_def build_element_def convert_element_def py_str_def
  py_slice_to_def check_rule_def trim_trailing_empty_def is_list_def

section \<open>Properties of the encoder\<close>

text \<open>
  Claim C10. For every segment schema, whatever the state of the generator,
  \<^verbatim>\<open>build_segment_list\<close> called with an empty list as the segment's data raises the
  IndexError of reading \<^verbatim>\<open>segment_data[0]\<close>. That error is not a ValueError, the class of
  every classified encoding error, and nothing is emitted.
\<close>

theorem build_segment_list_empty_data:
  "build_segment_list rt g segment (VList []) = Inl PyIndexError
   \<and> \<not> is_ValueError PyIndexError"
  by (simp add: build_segment_list_def py_first_def)

text \<open>
  Claim C5 says that encoding fails whenever a loop's data has more iterations than the
  loop's \<open>repeat\<close>. The encoder's check compares \<open>repeat\<close> with the number of child nodes
  of the loop schema, never with the number of iterations. With \<open>repeat = 3\<close>, one child and
  four iterations every iteration is encoded; with \<open>repeat = 1\<close>, two children and a single
  iteration the encoder fails.
\<close>

theorem build_loop_four_iterations_repeat_three:
  "build [(''810'', [st_node, loop_node ''L_N1'' ''O'' 3 [n1_node ''M'']])] rt EDIGenerator_init
     (VDict [st_data,
        (''L_N1'', VList [n1_iteration ''A'', n1_iteration ''B'', n1_iteration ''C'',
                          n1_iteration ''D''])])
   = Inr (''ST^810^0001'' @ [CHR 0x0A] @ ''N1^A'' @ [CHR 0x0A] @ ''N1^B'' @ [CHR 0x0A]
            @ ''N1^C'' @ [CHR 0x0A] @ ''N1^D'' @ [CHR 0x0A],
          EDIGenerator_init\<lparr>g_ts_id := Some (VStr ''810'')\<rparr>)
   \<and> build [(''810'', [st_node, loop_node ''L_N1'' ''O'' 1 [n1_node ''M'', n2_node ''O'']])] rt
       EDIGenerator_init (VDict [st_data, (''L_N1'', VList [n1_iteration ''A''])])
     = Inl (LoopTooLong ''L_N1'' 2 1)"
  by (simp add: example_defs encoder_defs)

text \<open>
  Claim C6 says that inside a loop a missing child is skipped when the child's \<open>req\<close> is O
  or C and is a missing-mandatory-segment error when it is M. The encoder tests the loop's
  \<open>req\<close> first. In a loop with \<open>req = M\<close> a missing optional child N2 is an unknown-req
  error; in a loop with \<open>req = O\<close> a missing mandatory child N2 is skipped and the
  iteration is emitted without it.
\<close>

theorem build_loop_missing_child_uses_loop_req:
  "build [(''810'', [st_node, loop_node ''L_N1'' ''M'' 3 [n1_node ''M'', n2_node ''O'']])] rt
     EDIGenerator_init (VDict [st_data, (''L_N1'', VList [n1_iteration ''A''])])
   = Inl (UnknownSegmentReq ''O'' ''N2'')
   \<and> build [(''810'', [st_node, loop_node ''L_N1'' ''O'' 3 [n1_node ''M'', n2_node ''M'']])] rt
       EDIGenerator_init (VDict [st_data, (''L_N1'', VList [n1_iteration ''A''])])
     = Inr (''ST^810^0001'' @ [CHR 0x0A] @ ''N1^A'' @ [CHR 0x0A],
            EDIGenerator_init\<lparr>g_ts_id := Some (VStr ''810'')\<rparr>)"
  by (simp add: example_defs encoder_defs)

text \<open>
  Claim C7 says that an element of type N\<open>k\<close> is emitted with \<open>k\<close> implied decimals and no
  radix point. The encoder formats the value with \<^verbatim>\<open>"{:0{length}.{decimal}f}"\<close>, which
  writes the radix point: for N2 and \<^verbatim>\<open>length.min = 6\<close> the integer 5 is emitted as
  \<^verbatim>\<open>005.00\<close> and the float 12.5 as \<^verbatim>\<open>012.50\<close>.
\<close>

theorem build_element_N2_has_radix_point:
  "build_element rt g (element_node ''AMT02'' ''M'' ''N2'' 6 10) (VInt 5) = Inr (''005.00'', g)
   \<and> build_element rt g (element_node ''AMT02'' ''M'' ''N2'' 6 10) (VFloat (25 / 2))
     = Inr (''012.50'', g)"
  by (simp add: example_defs encoder_defs py_float_def format_fixed_def is_digit_def
      nat_of_digits_def digit_val_def fmt_fixed_def round_half_even_def pad_left_def
      str_nat.simps numeral_2_eq_2)

subsection \<open>Delimiters in emitted payloads\<close>

lemma remove_all_single: "remove_all [c] s = filter (\<lambda>x. x \<noteq> c) s"
proof (induction s)
  case Nil
  show ?case by (simp add: remove_all.simps)
next
  case (Cons a s)
  show ?case
    by (subst remove_all.simps) (simp add: Cons)
qed

lemma set_collapse_ws: "set (collapse_ws s) \<subseteq> insert CHR '' '' (set s)"
proof (induction s rule: collapse_ws.induct)
  case 1
  show ?case by simp
next
  case (2 c cs)
  have "set (dropWhile is_space cs) \<subseteq> set cs"
    by (rule set_dropWhileD[THEN subsetI]) 
  with 2 show ?case by auto
qed

lemma is_substring_single: "is_substring [c] s \<longleftrightarrow> c \<in> set s"
  by (induction s) auto

lemma set_format:
  assumes "delimiter_list d = [[a], [b], [c], [e]]"
  shows "set (format d v) \<subseteq> insert CHR '' '' (set v - {a, b, c, e})"
proof -
  let ?w = "filter (\<lambda>x. x \<noteq> e) (filter (\<lambda>x. x \<noteq> c) (filter (\<lambda>x. x \<noteq> b) (filter (\<lambda>x. x \<noteq> a) v)))"
  have "format d v = collapse_ws ?w"
    unfolding format_def assms by (simp add: remove_all_single)
  moreover have "set (collapse_ws ?w) \<subseteq> insert CHR '' '' (set ?w)"
    by (rule set_collapse_ws)
  ultimately show ?thesis by auto
qed

lemma is_substring_Nil: "is_substring [] s"
  by (cases s) auto

lemma is_substring_append: "is_substring x s \<Longrightarrow> is_substring x (s @ t)"
proof (induction s)
  case Nil
  then show ?case by (simp add: is_substring_Nil)
next
  case (Cons c cs)
  show ?case
  proof (cases "take (length x) (c # cs) = x")
    case True
    then have "length (take (length x) (c # cs)) = length x"
      by simp
    then have "length x \<le> length (c # cs)"
      by (simp del: take_Suc_Cons)
    then have "take (length x) ((c # cs) @ t) = take (length x) (c # cs)"
      by (subst take_append) simp
    with True show ?thesis by simp
  next
    case False
    with Cons show ?thesis by simp
  qed
qed

lemma py_slice_to_keeps:
  assumes "int (length s) \<le> mx" and "is_substring x s"
  shows "is_substring x (py_slice_to (s @ t) mx)"
proof -
  from assms(1) have "py_slice_to (s @ t) mx = s @ take (nat mx - length s) t"
    by (simp add: py_slice_to_def)
  with assms(2) show ?thesis by (simp add: is_substring_append)
qed

lemma build_element_text:
  assumes "n_data_type e_format = Some ''AN''
           \<or> n_data_type e_format = Some ''ID'' \<and> n_data_type_ids e_format \<noteq> None"
    and "n_length e_format = Some (mn, mx)"
  shows "build_element rt g e_format (VStr s)
         = Inr (py_slice_to (s @ replicate (nat (mn - int (length s))) CHR '' '') mx, g)"
proof -
  from assms(1)
  have "convert_element rt g e_format (VStr s) = Some (s, g)"
    by (auto simp: convert_element_def py_str_def)
  with assms(2) show ?thesis
    by (simp add: build_element_def)
qed

lemma set_py_slice_to: "set (py_slice_to s m) \<subseteq> set s"
  by (auto simp: py_slice_to_def dest: in_set_takeD)

text \<open>
  Claim C8, as amended. The encoder strips nothing. For a string payload of an AN element, or
  of an ID element that has the key \<^verbatim>\<open>data_type_ids\<close>, whose \<^verbatim>\<open>length.min\<close> and
  \<^verbatim>\<open>length.max\<close> are given, \<^verbatim>\<open>build_element\<close> returns the payload padded with spaces to
  \<^verbatim>\<open>length.min\<close> characters and cut by the slice \<^verbatim>\<open>[:length.max]\<close>, and leaves the
  generator as it was; so a payload of at most \<^verbatim>\<open>length.max\<close> characters is emitted with
  every string that occurs in it, a delimiter included. Stripping is the
  caller's step, \<^verbatim>\<open>Delimiters.format\<close>: when each of the four delimiters of the
  \<^verbatim>\<open>Delimiters\<close> object is a single character other than the space, the string that
  \<^verbatim>\<open>format\<close> returns contains none of them, and \<^verbatim>\<open>build_element\<close> emits for that string a
  payload that contains none of them either.
\<close>

theorem build_element_keeps_format_strips:
  assumes "n_data_type e_format = Some ''AN''
           \<or> n_data_type e_format = Some ''ID'' \<and> n_data_type_ids e_format \<noteq> None"
    and "n_length e_format = Some (mn, mx)"
  shows "build_element rt g e_format (VStr s)
           = Inr (py_slice_to (s @ replicate (nat (mn - int (length s))) CHR '' '') mx, g)
     \<and> (\<forall>x. int (length s) \<le> mx \<and> is_substring x s \<longrightarrow>
            is_substring x (py_slice_to (s @ replicate (nat (mn - int (length s))) CHR '' '') mx))
     \<and> (list_all (\<lambda>x. length x = 1 \<and> x \<noteq> '' '') (delimiter_list d) \<longrightarrow>
          (\<exists>out. build_element rt g e_format (VStr (format d v)) = Inr (out, g)
             \<and> list_all (\<lambda>x. \<not> is_substring x (format d v) \<and> \<not> is_substring x out)
                 (delimiter_list d)))"
proof (intro conjI allI impI)
  show "build_element rt g e_format (VStr s)
           = Inr (py_slice_to (s @ replicate (nat (mn - int (length s))) CHR '' '') mx, g)"
    by (rule build_element_text [OF assms])
next
  fix x
  assume "int (length s) \<le> mx \<and> is_substring x s"
  then show "is_substring x (py_slice_to (s @ replicate (nat (mn - int (length s))) CHR '' '') mx)"
    by (simp add: py_slice_to_keeps)
next
  assume "list_all (\<lambda>x. length x = 1 \<and> x \<noteq> '' '') (delimiter_list d)"
  then obtain a b c e where
    dl: "delimiter_list d = [[a], [b], [c], [e]]"
    and ne: "a \<noteq> CHR '' ''" "b \<noteq> CHR '' ''" "c \<noteq> CHR '' ''" "e \<noteq> CHR '' ''"
    by (auto simp: delimiter_list_def length_Suc_conv)
  let ?w = "format d v"
  let ?out = "py_slice_to (?w @ replicate (nat (mn - int (length ?w))) CHR '' '') mx"
  have f: "set ?w \<subseteq> insert CHR '' '' (set v - {a, b, c, e})"
    by (rule set_format [OF dl])
  have "set ?out \<subseteq> set (?w @ replicate (nat (mn - int (length ?w))) CHR '' '')"
    by (rule set_py_slice_to)
  then have o: "set ?out \<subseteq> insert CHR '' '' (set ?w)"
    by auto
  have "build_element rt g e_format (VStr ?w) = Inr (?out, g)"
    by (rule build_element_text [OF assms])
  moreover from f o ne
  have "list_all (\<lambda>x. \<not> is_substring x ?w \<and> \<not> is_substring x ?out) (delimiter_list d)"
    unfolding dl by (auto simp: is_substring_single)
  ultimately show "\<exists>out. build_element rt g e_format (VStr ?w) = Inr (out, g)
             \<and> list_all (\<lambda>x. \<not> is_substring x ?w \<and> \<not> is_substring x out) (delimiter_list d)"
    by blast
qed

theorem build_element_keeps_format_strips_witness:
  "build_element no_lib EDIGenerator_init (element_node ''N102'' ''O'' ''AN'' 1 60) (VStr ''A^B*C'')
     = Inr (''A^B*C'', EDIGenerator_init)
   \<and> is_substring ''^'' ''A^B*C''
   \<and> format Delimiters_init ''A^B*C'' = ''ABC''
   \<and> build_element no_lib EDIGenerator_init (element_node ''N102'' ''O'' ''AN'' 1 60)
       (VStr (format Delimiters_init ''A^B*C'')) = Inr (''ABC'', EDIGenerator_init)
   \<and> list_all (\<lambda>x. \<not> is_substring x (format Delimiters_init ''A^B*C'') \<and> \<not> is_substring x ''ABC'')
       (delimiter_list Delimiters_init)"
proof -
  let ?e = "element_node ''N102'' ''O'' ''AN'' 1 60"
  have f: "format Delimiters_init ''A^B*C'' = ''ABC''"
    by (simp add: format_def Delimiters_init_def delimiter_list_def remove_all_single is_space_def)
  have h1: "n_data_type ?e = Some ''AN''
      \<or> n_data_type ?e = Some ''ID'' \<and> n_data_type_ids ?e \<noteq> None"
    by (simp add: element_node_def)
  have h2: "n_length ?e = Some (1, 60)"
    by (simp add: element_node_def)
  have h3: "list_all (\<lambda>x. length x = 1 \<and> x \<noteq> '' '') (delimiter_list Delimiters_init)"
    by (simp add: delimiter_list_def Delimiters_init_def)
  note t = build_element_keeps_format_strips [OF h1 h2, of no_lib EDIGenerator_init "''A^B*C''"
      Delimiters_init "''A^B*C''"]
  from t have a: "build_element no_lib EDIGenerator_init ?e (VStr ''A^B*C'')
     = Inr (''A^B*C'', EDIGenerator_init)"
    by (simp add: py_slice_to_def)
  from t h3 obtain out where
    b: "build_element no_lib EDIGenerator_init ?e (VStr (format Delimiters_init ''A^B*C''))
          = Inr (out, EDIGenerator_init)"
    and c: "list_all (\<lambda>x. \<not> is_substring x (format Delimiters_init ''A^B*C'') \<and> \<not> is_substring x out)
       (delimiter_list Delimiters_init)"
    by blast
  have "build_element no_lib EDIGenerator_init ?e (VStr (format Delimiters_init ''A^B*C''))
          = Inr (''ABC'', EDIGenerator_init)"
    unfolding f by (simp add: example_defs encoder_defs)
  with b have o: "out = ''ABC''" by simp
  from a b c f o show ?thesis by simp
qed

text \<open>
  Claim C8 as stated fails: the payload \<^verbatim>\<open>A^B\<close> of an AN element is emitted unchanged, with
  the element separator of the generator inside it. The four delimiters that
  \<^verbatim>\<open>Delimiters.format\<close> strips are those of the \<^verbatim>\<open>Delimiters\<close> object, and the defaults of the
  two constructors differ: the default \<^verbatim>\<open>Delimiters\<close> object leaves the default data
  separator of the generator in a payload.
\<close>

theorem build_emits_delimiter_in_payload:
  "build [(''810'', [st_node, n1_node ''M''])] no_lib EDIGenerator_init
     (VDict [st_data, (''N1'', VList [VStr ''A^B''])])
   = Inr (''ST^810^0001'' @ [CHR 0x0A] @ ''N1^A^B'' @ [CHR 0x0A],
          EDIGenerator_init\<lparr>g_ts_id := Some (VStr ''810'')\<rparr>)
   \<and> build_element no_lib EDIGenerator_init (element_node ''N101'' ''M'' ''AN'' 1 3) (VStr ''A^B'')
     = Inr (''A^B'', EDIGenerator_init)
   \<and> is_substring (g_element_delimiter EDIGenerator_init) ''A^B''
   \<and> format Delimiters_init ''A`B'' = ''A`B''
   \<and> build_element no_lib EDIGenerator_init (element_node ''N101'' ''M'' ''AN'' 1 3)
       (VStr (format Delimiters_init ''A`B'')) = Inr (''A`B'', EDIGenerator_init)
   \<and> is_substring (g_data_delimiter EDIGenerator_init) ''A`B''"
proof -
  have f: "format Delimiters_init ''A`B'' = ''A`B''"
    by (simp add: format_def Delimiters_init_def delimiter_list_def remove_all_single is_space_def)
  show ?thesis
    unfolding f by (simp add: example_defs encoder_defs)
qed

section \<open>Properties of the validator\<close>

text \<open>
  Claim C2 says that \<^verbatim>\<open>validate\<close> never raises and that a loop with more iterations than
  \<open>repeat\<close> adds a loop-cardinality error to the list. For a loop with \<open>repeat = 3\<close>, a
  document with three iterations is validated and the errors found (the missing envelope
  segments) are returned; with four iterations \<^verbatim>\<open>validate_loop\<close> calls
  \<^verbatim>\<open>add_error(type = "loop", ...)\<close> and \<^verbatim>\<open>validate\<close> ends in that TypeError.
\<close>

theorem validate_loop_over_repeat_raises:
  "validate rt
     (VDict [st_dict, (''L_N1'', VList [n1_dict ''A'', n1_dict ''B'', n1_dict ''C'', n1_dict ''D''])])
     [st_node, loop_node ''L_N1'' ''O'' 3 [n1_node ''M'']]
   = Inl PyTypeError
   \<and> validate rt
       (VDict [st_dict, (''L_N1'', VList [n1_dict ''A'', n1_dict ''B'', n1_dict ''C''])])
       [st_node, loop_node ''L_N1'' ''O'' 3 [n1_node ''M'']]
     = Inr [ValidationError (TypeName ''segment'') ''ISA'' (Some ''ISA'') RequiredSegmentNotFound,
            ValidationError (TypeName ''segment'') ''SE'' (Some ''SE'') RequiredSegmentNotFound,
            ValidationError (TypeName ''segment'') ''IEA'' (Some ''IEA'') RequiredSegmentNotFound]"
  by (simp add: example_defs validator_defs)

section \<open>Properties of the decoder\<close>

lemma split_on_not_Nil: "split_on c s \<noteq> []"
  by (induction s) (auto split: list.splits)

lemma split_from_single:
  "split_from [c] acc s = (acc @ hd (split_on c s)) # tl (split_on c s)"
proof (induction s arbitrary: acc)
  case Nil
  show ?case by (subst split_from.simps) simp
next
  case (Cons x xs)
  show ?case
    using split_on_not_Nil [of c xs]
    by (subst split_from.simps) (auto simp: Cons split: list.splits)
qed

lemma py_split_single: "py_split s [c] = Inr (split_on c s)"
  using split_on_not_Nil [of c s] by (simp add: py_split_def split_from_single)






lemma parse_isa_header_result:
  assumes "take 3 data = ''ISA''" and "3 < length data"
  shows "parse_isa_header p data
         = Inr (isa_fields 0 (split_on (data ! 3) data) (p\<lparr>p_element_delimiter := [data ! 3]\<rparr>))"
proof -
  have "take 1 (drop 3 data) = [data ! 3]"
    using assms(2) by (simp add: take_Suc_conv_app_nth)
  then show ?thesis
    using assms(1) by (simp add: parse_isa_header_def py_split_single)
qed



























text \<open>
  Claim C3 says that a parser constructed without a preselected format reads the
  transaction-set id from \<^verbatim>\<open>ST[1]\<close> and returns the pair of the segment order and the
  document. \<^verbatim>\<open>parse_st_header\<close> reads \<^verbatim>\<open>self.trans_set_specified\<close>, which \<^verbatim>\<open>__init__\<close> does not
  assign: on a well-formed interchange \<^verbatim>\<open>parse\<close> ends in an AttributeError. Without an ST
  segment it fails with the missing-ST error, as the claim says.
\<close>

theorem parse_fresh_parser_raises:
  "EDIParser_init example_formats None ''^'' [CHR 0x0A] ''`'' = Inr (fresh_parser ''^'' [CHR 0x0A] ''`'')
   \<and> parse fuel example_formats rt (fresh_parser ''^'' [CHR 0x0A] ''`'') interchange_text
     = Some (Inl (PyAttributeError ''trans_set_specified''))
   \<and> parse fuel example_formats rt (fresh_parser ''^'' [CHR 0x0A] ''`'') interchange_without_st
     = Some (Inl (MissingRequiredSegment ''ST''))"
proof -
  have a: "take 3 interchange_text = ''ISA''" and b: "3 < length interchange_text"
    and c: "take 3 interchange_without_st = ''ISA''" and d: "3 < length interchange_without_st"
    by (simp_all add: interchange_text_def interchange_without_st_def)
  have 1: "parse fuel example_formats rt (fresh_parser ''^'' [CHR 0x0A] ''`'') interchange_text
     = Some (Inl (PyAttributeError ''trans_set_specified''))"
    unfolding parse_def parse_isa_header_result [OF a b]
    by (simp add: interchange_text_def fresh_parser_def isa16_def py_split_single
        parse_segments_def parse_required_segments_def py_split_first_def parse_st_header_def)
  have 2: "parse fuel example_formats rt (fresh_parser ''^'' [CHR 0x0A] ''`'') interchange_without_st
     = Some (Inl (MissingRequiredSegment ''ST''))"
    unfolding parse_def parse_isa_header_result [OF c d]
    by (simp add: interchange_without_st_def fresh_parser_def isa16_def py_split_single
        parse_segments_def parse_required_segments_def py_split_first_def parse_st_header_def)
  show ?thesis
    using 1 2 by (simp add: EDIParser_init_def)
qed

section \<open>Properties of the schema loader\<close>

text \<open>
  Claim C4 says that the loader replaces every placeholder by a deep copy of the head of
  the registry entry it names. On a registry in which the format 810 holds a placeholder
  for N1 and the entry N1 holds the segment N1, at the top level or inside a loop, the
  loader ends in the NameError of \<^verbatim>\<open>copy.deepcopy\<close>; a placeholder whose entry has another
  id is the missing-segment-data error; a registry without placeholders is left as it is.
\<close>

theorem replace_segment_placeholders_name_error:
  "replace_segment_placeholders
     [(''810'', [st_node, placeholder_node ''N1'']), (''N1'', [n1_node ''M''])]
   = Inl (PyNameError ''copy'')
   \<and> replace_segment_placeholders
       [(''810'', [st_node, loop_node ''L_N1'' ''O'' 3 [placeholder_node ''N1'']]),
        (''N1'', [n1_node ''M''])]
     = Inl (PyNameError ''copy'')
   \<and> replace_segment_placeholders
       [(''810'', [st_node, placeholder_node ''N1'']), (''N1'', [n2_node ''M''])]
     = Inl (MissingSegmentData ''N1'' ''N1'' ''810'' None)
   \<and> replace_segment_placeholders
       [(''810'', [st_node, loop_node ''L_N1'' ''O'' 3 [n1_node ''M'']]), (''N1'', [n1_node ''M''])]
     = Inr [(''810'', [st_node, loop_node ''L_N1'' ''O'' 3 [n1_node ''M'']]),
            (''N1'', [n1_node ''M''])]"
  by (simp add: replace_segment_placeholders_def placeholder_node_def example_defs Let_def)

section \<open>The round trip\<close>

text \<open>
  Claim C1 says that decoding the encoding of a document that validates clean gives the
  document back. The invoice validates clean, \<^verbatim>\<open>to_element_list\<close> gives the encoder its
  positional shape and \<^verbatim>\<open>build\<close> encodes it; \<^verbatim>\<open>parse\<close> on that text, with a parser as
  \<^verbatim>\<open>__init__\<close> leaves it, ends in the AttributeError of reading \<^verbatim>\<open>trans_set_specified\<close>. With
  that attribute assigned \<open>False\<close> from outside, the same text decodes to the items of the
  invoice.
\<close>

theorem round_trip_fresh_parser:
  "validate rt invoice [isa_node, st_node, se_node, iea_node] = Inr []
   \<and> to_element_list invoice = Inr invoice_lists
   \<and> build invoice_formats rt EDIGenerator_init invoice_lists
     = Inr (invoice_text,
            EDIGenerator_init\<lparr>g_data_delimiter := '':'', g_ts_id := Some (VStr ''810'')\<rparr>)
   \<and> parse fuel invoice_formats rt (fresh_parser ''^'' [CHR 0x0A] ''`'') invoice_text
     = Some (Inl (PyAttributeError ''trans_set_specified''))
   \<and> map_option (map_sum id fst)
       (parse 8 invoice_formats rt
          ((fresh_parser ''^'' [CHR 0x0A] ''`'')\<lparr>p_trans_set_specified := Some False\<rparr>)
          invoice_text)
     = Some (Inr ([''ISA'', ''ST'', ''SE'', ''IEA''],
                  [(''ISA'', VDict (zip isa_ids (map VStr isa_values))),
                   st_dict,
                   (''SE'', VDict [(''SE01'', VStr ''2''), (''SE02'', VStr ''0001'')]),
                   (''IEA'', VDict [(''IEA01'', VStr ''1''), (''IEA02'', VStr ''000000001'')])]))"
  by code_simp

end
